theory Spec2Isabelle
  imports Main "HOL-Library.AList"
begin

section \<open>Values, errors and JSON text\<close>

text \<open>
  The cached values are the results of the upstream lookups: JSON data. An object keeps
  its properties in the order in which \<^verbatim>\<open>JSON.stringify\<close> visits them (the
  object's own enumeration order, which for the identifier-like keys of the routes is
  the insertion order). Numbers are the integers (the routes' \<^verbatim>\<open>page\<close>); strings
  are lists of code units below 256. \<^verbatim>\<open>undefined\<close> is not a JSON value: it only
  occurs as the value of an optional route parameter (\<^verbatim>\<open>provider\<close>), hence the
  parameter bag of \<^verbatim>\<open>getCacheKey\<close> maps a key to a \<open>json option\<close>.
\<close>

datatype json =
    JNull
  | JBool bool
  | JNum int
  | JStr string
  | JArr "json list"
  | JObj "(string \<times> json) list"

text \<open>A thrown JavaScript error: the \<^verbatim>\<open>SyntaxError\<close> of \<^verbatim>\<open>JSON.parse\<close>, or
  any other \<^verbatim>\<open>Error\<close> (a rejected Redis command, a rejected loader).\<close>

datatype js_error = SyntaxError string | Error string

text \<open>JavaScript truthiness, as tested by \<^verbatim>\<open>if (memoryCachedData)\<close> and
  \<^verbatim>\<open>if (cachedData)\<close>: \<^verbatim>\<open>undefined\<close>, \<^verbatim>\<open>null\<close>, \<^verbatim>\<open>false\<close>,
  \<^verbatim>\<open>0\<close> and the empty string are falsy, every object and array is truthy.\<close>

fun truthy :: "json \<Rightarrow> bool" where
  "truthy JNull = False"
| "truthy (JBool b) = b"
| "truthy (JNum n) = (n \<noteq> 0)"
| "truthy (JStr s) = (s \<noteq> [])"
| "truthy (JArr xs) = True"
| "truthy (JObj ps) = True"

text \<open>The value a lookup hands to the test: \<^verbatim>\<open>undefined\<close>/\<^verbatim>\<open>null\<close> when
  nothing is there.\<close>

definition truthy_opt :: "json option \<Rightarrow> bool" where
  "truthy_opt r = (case r of None \<Rightarrow> False | Some v \<Rightarrow> truthy v)"

definition truthy_str :: "string option \<Rightarrow> bool" where
  "truthy_str r = (case r of None \<Rightarrow> False | Some s \<Rightarrow> s \<noteq> [])"

subsection \<open>\<^verbatim>\<open>JSON.stringify\<close>\<close>

fun show_nat :: "nat \<Rightarrow> string" where
  "show_nat n =
     (if n < 10 then [''0123456789'' ! n]
      else show_nat (n div 10) @ [''0123456789'' ! (n mod 10)])"

declare show_nat.simps [simp del]

definition show_int :: "int \<Rightarrow> string" where
  "show_int i = (if i < 0 then CHR ''-'' # show_nat (nat (- i)) else show_nat (nat i))"

text \<open>\<^verbatim>\<open>QuoteJSONString\<close>: the double quote and the backslash are escaped, the control
  characters get their short escapes or \<^verbatim>\<open>\u00XX\<close>.\<close>

definition hex_digit :: "nat \<Rightarrow> char" where
  "hex_digit n = ''0123456789abcdef'' ! (n mod 16)"

definition quote_char :: "char \<Rightarrow> string" where
  "quote_char c =
     (if c = CHR 0x22 then [CHR 0x5C, CHR 0x22]
      else if c = CHR 0x5C then [CHR 0x5C, CHR 0x5C]
      else if c = CHR 0x08 then [CHR 0x5C, CHR ''b'']
      else if c = CHR 0x09 then [CHR 0x5C, CHR ''t'']
      else if c = CHR 0x0A then [CHR 0x5C, CHR ''n'']
      else if c = CHR 0x0C then [CHR 0x5C, CHR ''f'']
      else if c = CHR 0x0D then [CHR 0x5C, CHR ''r'']
      else if (of_char c :: nat) < 32
        then [CHR 0x5C, CHR ''u'', CHR ''0'', CHR ''0'',
              hex_digit (of_char c div 16), hex_digit (of_char c)]
      else [c])"

definition quote :: "string \<Rightarrow> string" where
  "quote s = CHR 0x22 # concat (map quote_char s) @ [CHR 0x22]"

fun commas :: "string list \<Rightarrow> string" where
  "commas [] = []"
| "commas [x] = x"
| "commas (x # y # ys) = x @ CHR '','' # commas (y # ys)"

fun JSON_stringify :: "json \<Rightarrow> string"
  and stringify_elems :: "json list \<Rightarrow> string list"
  and stringify_props :: "(string \<times> json) list \<Rightarrow> string list"
where
  "JSON_stringify JNull = ''null''"
| "JSON_stringify (JBool b) = (if b then ''true'' else ''false'')"
| "JSON_stringify (JNum n) = show_int n"
| "JSON_stringify (JStr s) = quote s"
| "JSON_stringify (JArr xs) = CHR ''['' # commas (stringify_elems xs) @ '']''"
| "JSON_stringify (JObj ps) = CHR ''{'' # commas (stringify_props ps) @ ''}''"
| "stringify_elems [] = []"
| "stringify_elems (x # xs) = JSON_stringify x # stringify_elems xs"
| "stringify_props [] = []"
| "stringify_props (p # ps) =
     (quote (fst p) @ CHR '':'' # JSON_stringify (snd p)) # stringify_props ps"

section \<open>The cache key\<close>

text \<open>
  \<^verbatim>\<open>const getCacheKey = (route, params) => `tmdb:${route}:${JSON.stringify(params)}`\<close>

  The bag \<open>params\<close> lists the properties of the object literal in their enumeration
  order; a property whose value is \<^verbatim>\<open>undefined\<close> (\<open>None\<close>) is left out by
  \<^verbatim>\<open>JSON.stringify\<close>.
\<close>

fun defined_props :: "(string \<times> json option) list \<Rightarrow> (string \<times> json) list" where
  "defined_props [] = []"
| "defined_props ((k, None) # ps) = defined_props ps"
| "defined_props ((k, Some v) # ps) = (k, v) # defined_props ps"

definition getCacheKey :: "string \<Rightarrow> (string \<times> json option) list \<Rightarrow> string" where
  "getCacheKey route params =
     ''tmdb:'' @ route @ '':'' @ JSON_stringify (JObj (defined_props params))"

section \<open>The local tier\<close>

text \<open>\<^verbatim>\<open>const CACHE_TTL = 1800;\<close> (seconds)\<close>

definition CACHE_TTL :: nat where
  "CACHE_TTL = 1800"

text \<open>
  Modelled from the spec: the class \<^verbatim>\<open>LRUCache\<close> of the package
  \<^verbatim>\<open>lru-cache\<close> is imported by the route file and is not among the sources.
  Section 4.2 of the specification describes it: a bounded in-process cache with a
  fixed maximum entry count, a per-entry time-to-live and least-recently-used
  eviction. The entries are kept from the least recently used (the head) to the most
  recently used (the last); each carries its value and the time, in milliseconds, at
  which it was stored.
\<close>

record LRUCache =
  maxEntries :: nat
  ttl :: nat
  items :: "(string \<times> json \<times> nat) list"

text \<open>Modelled from the spec: the tier is constructed empty, from its two options
  (\<^verbatim>\<open>new LRUCache({ max, ttl })\<close>, \<open>ttl\<close> in milliseconds).\<close>

definition new_LRUCache :: "nat \<Rightarrow> nat \<Rightarrow> LRUCache" where
  "new_LRUCache m t = \<lparr>maxEntries = m, ttl = t, items = []\<rparr>"

text \<open>Modelled from the spec: an entry is expired once its time-to-live has elapsed.\<close>

definition expired :: "LRUCache \<Rightarrow> nat \<Rightarrow> nat \<Rightarrow> bool" where
  "expired c now start = (ttl c < now - start)"

text \<open>
  Modelled from the spec: \<^verbatim>\<open>get(key)\<close> "returns the stored value if present and
  not expired; expired entries are treated as absent and lazily removed"; "get on a hit
  refreshes recency ordering".
\<close>

definition LocalTier_get :: "nat \<Rightarrow> string \<Rightarrow> LRUCache \<Rightarrow> json option \<times> LRUCache" where
  "LocalTier_get now k c =
     (case map_of (items c) k of
        None \<Rightarrow> (None, c)
      | Some (v, start) \<Rightarrow>
          if expired c now start
          then (None, c\<lparr>items := AList.delete k (items c)\<rparr>)
          else (Some v, c\<lparr>items := AList.delete k (items c) @ [(k, v, start)]\<rparr>))"

text \<open>
  Modelled from the spec: \<^verbatim>\<open>set(key, value)\<close> "inserts or replaces; if the tier
  is at capacity, evicts the least-recently-used entry first. Insertion always
  succeeds".
\<close>

definition LocalTier_set :: "nat \<Rightarrow> string \<Rightarrow> json \<Rightarrow> LRUCache \<Rightarrow> LRUCache" where
  "LocalTier_set now k v c =
     (case map_of (items c) k of
        Some old \<Rightarrow> c\<lparr>items := AList.delete k (items c) @ [(k, v, now)]\<rparr>
      | None \<Rightarrow>
          if maxEntries c \<le> length (items c)
          then c\<lparr>items := tl (items c) @ [(k, v, now)]\<rparr>
          else c\<lparr>items := items c @ [(k, v, now)]\<rparr>)"

text \<open>What \<^verbatim>\<open>get\<close> would return at time \<open>now\<close>, without its side effects: the
  content of the tier as a caller can observe it.\<close>

definition LocalTier_peek :: "nat \<Rightarrow> LRUCache \<Rightarrow> string \<Rightarrow> json option" where
  "LocalTier_peek now c k =
     (case map_of (items c) k of
        None \<Rightarrow> None
      | Some (v, start) \<Rightarrow> if expired c now start then None else Some v)"

text \<open>\<^verbatim>\<open>const memoryCache = new LRUCache<string, any>({ max: 1000, ttl: CACHE_TTL * 1000 });\<close>\<close>

definition memoryCache0 :: LRUCache where
  "memoryCache0 = new_LRUCache 1000 (CACHE_TTL * 1000)"

section \<open>The shared tier\<close>

text \<open>
  Modelled from the spec: the \<^verbatim>\<open>ioredis\<close> client is not among the sources.
  Sections 4.3 and 6 describe the protocol: \<^verbatim>\<open>GET key\<close> returns a string or
  absence, \<^verbatim>\<open>SET key value EX ttlSeconds\<close> stores a string with an expiry, and
  either command can fail (network, protocol) independently of the data. The store
  maps a key to its string and the time (milliseconds) at which it expires;
  \<open>get_error\<close> and \<open>set_error\<close> say whether the command of that kind is rejected, and
  with what; \<open>rtt\<close> is the time a round trip takes.
\<close>

record Redis =
  store :: "string \<rightharpoonup> string \<times> nat"
  get_error :: "js_error option"
  set_error :: "js_error option"
  rtt :: nat

text \<open>Modelled from the spec: \<^verbatim>\<open>GET key\<close> is rejected, or returns the string
  stored for the key if there is one that has not expired.\<close>

definition redis_get :: "nat \<Rightarrow> string \<Rightarrow> Redis \<Rightarrow> js_error + string option" where
  "redis_get now k r =
     (case get_error r of
        Some e \<Rightarrow> Inl e
      | None \<Rightarrow>
          Inr (case store r k of
                 None \<Rightarrow> None
               | Some (s, expiry) \<Rightarrow> if now < expiry then Some s else None))"

text \<open>Modelled from the spec: \<^verbatim>\<open>SET key value EX ttlSeconds\<close> is rejected and
  changes nothing, or stores the string with its expiry.\<close>

definition redis_set :: "nat \<Rightarrow> string \<Rightarrow> string \<Rightarrow> nat \<Rightarrow> Redis \<Rightarrow> Redis" where
  "redis_set now k s ex r =
     (case set_error r of
        Some e \<Rightarrow> r
      | None \<Rightarrow> r\<lparr>store := (store r)(k \<mapsto> (s, now + ex * 1000))\<rparr>)"

section \<open>The read-through wrapper\<close>

text \<open>
  The Fastify instance carries \<^verbatim>\<open>memoryCache\<close> and \<^verbatim>\<open>redis: Redis | null\<close>. The
  state adds what the wrapper's effects depend on and leave behind: the time
  (\<open>clock\<close>, milliseconds) and the number of loader invocations made so far
  (\<open>fetches\<close>).
\<close>

record fastify =
  memoryCache :: LRUCache
  redis :: "Redis option"
  clock :: nat
  fetches :: nat

text \<open>The reply's headers; \<^verbatim>\<open>reply.header(name, value)\<close> sets one.\<close>

type_synonym reply = "string \<rightharpoonup> string"

text \<open>
  \<^verbatim>\<open>fetchData: () => Promise<T>\<close>. A loader may answer differently each time it is
  invoked: it is given the number of invocations made before this one, and answers
  with a value or a rejection, and the time it took.
\<close>

type_synonym loader = "nat \<Rightarrow> (js_error + json) \<times> nat"

text \<open>Lines 80 to 90 of \<^verbatim>\<open>cacheWrapper\<close>: the header, the loader, both stores.
  The promise of \<^verbatim>\<open>redis.set\<close> is neither awaited nor given a handler.\<close>

definition cacheWrapper_fetch ::
  "fastify \<Rightarrow> string \<Rightarrow> loader \<Rightarrow> reply \<Rightarrow> (js_error + json) \<times> reply \<times> fastify" where
  "cacheWrapper_fetch f cacheKey fetchData reply =
     (let reply' = reply(''X-Cache'' \<mapsto> ''MISS'');
          (res, d) = fetchData (fetches f);
          f' = f\<lparr>clock := clock f + d, fetches := Suc (fetches f)\<rparr>
      in case res of
           Inl e \<Rightarrow> (Inl e, reply', f')
         | Inr data \<Rightarrow>
             (Inr data, reply',
              f'\<lparr>memoryCache := LocalTier_set (clock f') cacheKey data (memoryCache f'),
                 redis := map_option
                   (redis_set (clock f') cacheKey (JSON_stringify data) CACHE_TTL)
                   (redis f')\<rparr>))"

text \<open>
  \<^verbatim>\<open>cacheWrapper(fastify, cacheKey, fetchData, reply)\<close>. \<open>parse\<close> stands for the
  builtin \<^verbatim>\<open>JSON.parse\<close>, which returns the value of a text or throws. Nothing in
  the function catches: a rejected \<^verbatim>\<open>redis.get\<close>, a throwing \<^verbatim>\<open>JSON.parse\<close> and
  a rejected loader all reject the wrapper's promise (\<open>Inl\<close>).
\<close>

definition cacheWrapper ::
  "(string \<Rightarrow> js_error + json) \<Rightarrow> fastify \<Rightarrow> string \<Rightarrow> loader \<Rightarrow> reply
     \<Rightarrow> (js_error + json) \<times> reply \<times> fastify" where
  "cacheWrapper parse f cacheKey fetchData reply =
     (let (memoryCachedData, mc) = LocalTier_get (clock f) cacheKey (memoryCache f);
          f1 = f\<lparr>memoryCache := mc\<rparr>
      in if truthy_opt memoryCachedData
         then (Inr (the memoryCachedData), reply(''X-Cache'' \<mapsto> ''HIT-MEMORY''), f1)
         else
           (case redis f1 of
              None \<Rightarrow> cacheWrapper_fetch f1 cacheKey fetchData reply
            | Some r \<Rightarrow>
                (let f2 = f1\<lparr>clock := clock f1 + rtt r\<rparr>
                 in case redis_get (clock f1) cacheKey r of
                      Inl e \<Rightarrow> (Inl e, reply, f2)
                    | Inr cachedData \<Rightarrow>
                        if truthy_str cachedData
                        then (case parse (the cachedData) of
                                Inl e \<Rightarrow> (Inl e, reply, f2)
                              | Inr parsedData \<Rightarrow>
                                  (Inr parsedData, reply(''X-Cache'' \<mapsto> ''HIT-REDIS''),
                                   f2\<lparr>memoryCache :=
                                        LocalTier_set (clock f2) cacheKey parsedData
                                          (memoryCache f2)\<rparr>))
                        else cacheWrapper_fetch f2 cacheKey fetchData reply)))"

text \<open>The three components of what a call leaves behind: the value or the error the
  promise settles with, the \<^verbatim>\<open>X-Cache\<close> header of the reply, and the state.\<close>

definition returned :: "(js_error + json) \<times> reply \<times> fastify \<Rightarrow> js_error + json" where
  "returned out = fst out"

definition x_cache :: "(js_error + json) \<times> reply \<times> fastify \<Rightarrow> string option" where
  "x_cache out = fst (snd out) ''X-Cache''"

definition after :: "(js_error + json) \<times> reply \<times> fastify \<Rightarrow> fastify" where
  "after out = snd (snd out)"

section \<open>Example inputs\<close>

text \<open>
  A stand-in for \<^verbatim>\<open>JSON.parse\<close> in the examples, which apply it only to the
  texts \<^verbatim>\<open>null\<close>, \<^verbatim>\<open>true\<close>, \<^verbatim>\<open>false\<close>, \<^verbatim>\<open>0\<close> (where it is
  \<^verbatim>\<open>JSON.parse\<close>) and to \<^verbatim>\<open>{oops\<close> (which is not JSON).
\<close>

definition parse_literal :: "string \<Rightarrow> js_error + json" where
  "parse_literal s =
     (if s = ''null'' then Inr JNull
      else if s = ''true'' then Inr (JBool True)
      else if s = ''false'' then Inr (JBool False)
      else if s = ''0'' then Inr (JNum 0)
      else Inl (SyntaxError s))"

text \<open>Loaders: one that resolves with the same value every time, one that resolves
  with the number of its earlier invocations (0, 1, 2, ...), one that always rejects.\<close>

definition constant_loader :: "json \<Rightarrow> loader" where
  "constant_loader v n = (Inr v, 0)"

definition counting_loader :: loader where
  "counting_loader n = (Inr (JNum (int n)), 0)"

definition failing_loader :: "js_error \<Rightarrow> loader" where
  "failing_loader e n = (Inl e, 0)"

text \<open>A fresh process: the configured, empty local tier; with or without a shared tier.\<close>

definition fresh :: "Redis option \<Rightarrow> fastify" where
  "fresh r = \<lparr>memoryCache = memoryCache0, redis = r, clock = 0, fetches = 0\<rparr>"

definition redis_holding :: "(string \<rightharpoonup> string \<times> nat) \<Rightarrow> Redis" where
  "redis_holding m = \<lparr>store = m, get_error = None, set_error = None, rtt = 2\<rparr>"

definition redis_unreachable :: Redis where
  "redis_unreachable =
     \<lparr>store = Map.empty, get_error = Some (Error ''ECONNREFUSED''),
      set_error = Some (Error ''ECONNREFUSED''), rtt = 2\<rparr>"

section \<open>Properties of the tiers\<close>

lemma get_peek: "fst (LocalTier_get now k c) = LocalTier_peek now c k"
  by (simp add: LocalTier_get_def LocalTier_peek_def split: option.splits prod.splits)

lemma map_of_tl_None: "map_of xs k = None \<Longrightarrow> map_of (tl xs) k = None"
  by (cases xs) (auto split: if_splits)

lemma peek_set_same:
  "LocalTier_peek t (LocalTier_set now k v c) k = (if ttl c < t - now then None else Some v)"
  by (auto simp: LocalTier_set_def LocalTier_peek_def expired_def map_of_tl_None delete_conv
      map_add_def split: option.splits)

lemma peek_get_later:
  "now \<le> t \<Longrightarrow> LocalTier_peek t (snd (LocalTier_get now k c)) k' = LocalTier_peek t c k'"
  by (auto simp: LocalTier_get_def LocalTier_peek_def expired_def delete_conv
      map_add_def split: option.splits)

lemma bag_eq:
  assumes "distinct (map fst p1)" "map fst p1 = map fst p2" "map_of p1 = map_of p2"
  shows "p1 = p2"
proof -
  have z1: "zip (map fst p1) (map snd p1) = p1"
    by (rule zip_map_fst_snd)
  have z2: "zip (map fst p1) (map snd p2) = p2"
    unfolding assms(2) by (rule zip_map_fst_snd)
  have sn: "map snd p1 = map snd p2"
  proof (rule map_of_zip_inject [of _ "map fst p1"])
    show "map_of (zip (map fst p1) (map snd p1)) = map_of (zip (map fst p1) (map snd p2))"
      unfolding z1 z2 by (rule assms(3))
    show "length (map snd p2) = length (map fst p1)"
      unfolding assms(2) by simp
  qed (use assms(1) in simp_all)
  have "p1 = zip (map fst p1) (map snd p1)"
    by (rule z1 [symmetric])
  also have "\<dots> = zip (map fst p1) (map snd p2)"
    by (simp only: sn)
  also have "\<dots> = p2"
    by (rule z2)
  finally show ?thesis .
qed


lemma cacheWrapper_unfold:
  "cacheWrapper parse f k ld rp =
     (let f1 = f\<lparr>memoryCache := snd (LocalTier_get (clock f) k (memoryCache f))\<rparr>
      in if truthy_opt (LocalTier_peek (clock f) (memoryCache f) k)
         then (Inr (the (LocalTier_peek (clock f) (memoryCache f) k)),
               rp(''X-Cache'' \<mapsto> ''HIT-MEMORY''), f1)
         else
           (case redis f of
              None \<Rightarrow> cacheWrapper_fetch f1 k ld rp
            | Some r \<Rightarrow>
                (let f2 = f1\<lparr>clock := clock f + rtt r\<rparr>
                 in case redis_get (clock f) k r of
                      Inl e \<Rightarrow> (Inl e, rp, f2)
                    | Inr cachedData \<Rightarrow>
                        if truthy_str cachedData
                        then (case parse (the cachedData) of
                                Inl e \<Rightarrow> (Inl e, rp, f2)
                              | Inr parsedData \<Rightarrow>
                                  (Inr parsedData, rp(''X-Cache'' \<mapsto> ''HIT-REDIS''),
                                   f2\<lparr>memoryCache :=
                                        LocalTier_set (clock f + rtt r) k parsedData
                                          (memoryCache f1)\<rparr>))
                        else cacheWrapper_fetch f2 k ld rp)))"
  unfolding cacheWrapper_def get_peek [symmetric] case_prod_beta Let_def
  by (simp split: option.split sum.split)


lemma cw_memory:
  assumes "truthy_opt (LocalTier_peek (clock f) (memoryCache f) k)"
  shows "cacheWrapper parse f k ld rp =
    (Inr (the (LocalTier_peek (clock f) (memoryCache f) k)), rp(''X-Cache'' \<mapsto> ''HIT-MEMORY''),
     f\<lparr>memoryCache := snd (LocalTier_get (clock f) k (memoryCache f))\<rparr>)"
  using assms by (simp add: cacheWrapper_unfold)

lemma cw_unconfigured:
  assumes "\<not> truthy_opt (LocalTier_peek (clock f) (memoryCache f) k)" "redis f = None"
  shows "cacheWrapper parse f k ld rp =
    cacheWrapper_fetch (f\<lparr>memoryCache := snd (LocalTier_get (clock f) k (memoryCache f))\<rparr>) k ld rp"
  using assms by (simp add: cacheWrapper_unfold)

lemma cw_get_rejected:
  assumes "\<not> truthy_opt (LocalTier_peek (clock f) (memoryCache f) k)" "redis f = Some r"
    "redis_get (clock f) k r = Inl e"
  shows "cacheWrapper parse f k ld rp =
    (Inl e, rp, f\<lparr>memoryCache := snd (LocalTier_get (clock f) k (memoryCache f)),
                  clock := clock f + rtt r\<rparr>)"
  using assms by (simp add: cacheWrapper_unfold)

lemma cw_shared_miss:
  assumes "\<not> truthy_opt (LocalTier_peek (clock f) (memoryCache f) k)" "redis f = Some r"
    "redis_get (clock f) k r = Inr s" "\<not> truthy_str s"
  shows "cacheWrapper parse f k ld rp =
    cacheWrapper_fetch (f\<lparr>memoryCache := snd (LocalTier_get (clock f) k (memoryCache f)),
                  clock := clock f + rtt r\<rparr>) k ld rp"
  using assms by (simp add: cacheWrapper_unfold)

lemma cw_parse_throws:
  assumes "\<not> truthy_opt (LocalTier_peek (clock f) (memoryCache f) k)" "redis f = Some r"
    "redis_get (clock f) k r = Inr (Some s)" "s \<noteq> []" "parse s = Inl e"
  shows "cacheWrapper parse f k ld rp =
    (Inl e, rp, f\<lparr>memoryCache := snd (LocalTier_get (clock f) k (memoryCache f)),
                  clock := clock f + rtt r\<rparr>)"
  using assms by (simp add: cacheWrapper_unfold truthy_str_def)

lemma cw_shared_hit:
  assumes "\<not> truthy_opt (LocalTier_peek (clock f) (memoryCache f) k)" "redis f = Some r"
    "redis_get (clock f) k r = Inr (Some s)" "s \<noteq> []" "parse s = Inr v"
  shows "cacheWrapper parse f k ld rp =
    (Inr v, rp(''X-Cache'' \<mapsto> ''HIT-REDIS''),
     f\<lparr>memoryCache := LocalTier_set (clock f + rtt r) k v
                        (snd (LocalTier_get (clock f) k (memoryCache f))),
       clock := clock f + rtt r\<rparr>)"
  using assms by (simp add: cacheWrapper_unfold truthy_str_def)

lemma fetch_rejected:
  assumes "ld (fetches f) = (Inl e, d)"
  shows "cacheWrapper_fetch f k ld rp =
    (Inl e, rp(''X-Cache'' \<mapsto> ''MISS''), f\<lparr>clock := clock f + d, fetches := Suc (fetches f)\<rparr>)"
  using assms by (simp add: cacheWrapper_fetch_def)

lemma fetch_resolved:
  assumes "ld (fetches f) = (Inr v, d)"
  shows "cacheWrapper_fetch f k ld rp =
    (Inr v, rp(''X-Cache'' \<mapsto> ''MISS''),
     f\<lparr>clock := clock f + d, fetches := Suc (fetches f),
       memoryCache := LocalTier_set (clock f + d) k v (memoryCache f),
       redis := map_option (redis_set (clock f + d) k (JSON_stringify v) CACHE_TTL) (redis f)\<rparr>)"
  using assms by (simp add: cacheWrapper_fetch_def)

lemma fetch_count: "fetches (snd (snd (cacheWrapper_fetch f k ld rp))) = Suc (fetches f)"
  by (simp add: cacheWrapper_fetch_def Let_def split: prod.splits sum.splits)

lemma cw_cases:
  obtains (memory) "truthy_opt (LocalTier_peek (clock f) (memoryCache f) k)"
  | (unconfigured) "\<not> truthy_opt (LocalTier_peek (clock f) (memoryCache f) k)" "redis f = None"
  | (rejected) r e where "\<not> truthy_opt (LocalTier_peek (clock f) (memoryCache f) k)" "redis f = Some r"
      "redis_get (clock f) k r = Inl e"
  | (miss) r s where "\<not> truthy_opt (LocalTier_peek (clock f) (memoryCache f) k)" "redis f = Some r"
      "redis_get (clock f) k r = Inr s" "\<not> truthy_str s"
  | (throws) r s e where "\<not> truthy_opt (LocalTier_peek (clock f) (memoryCache f) k)" "redis f = Some r"
    "redis_get (clock f) k r = Inr (Some s)" "s \<noteq> []" "parse s = Inl e"
  | (hit) r s v where "\<not> truthy_opt (LocalTier_peek (clock f) (memoryCache f) k)" "redis f = Some r"
    "redis_get (clock f) k r = Inr (Some s)" "s \<noteq> []" "parse s = Inr v"
proof (cases "truthy_opt (LocalTier_peek (clock f) (memoryCache f) k)")
  case True then show ?thesis by (rule memory)
next
  case nt: False
  show ?thesis
  proof (cases "redis f")
    case None with nt show ?thesis by (rule unconfigured)
  next
    case (Some r)
    show ?thesis
    proof (cases "redis_get (clock f) k r")
      case (Inl e) with nt Some show ?thesis by (rule rejected)
    next
      case (Inr s)
      show ?thesis
      proof (cases "truthy_str s")
        case False with nt Some Inr show ?thesis by (rule miss)
      next
        case True
        then obtain t where t: "s = Some t" "t \<noteq> []"
          by (auto simp: truthy_str_def split: option.splits)
        show ?thesis
        proof (cases "parse t")
          case (Inl e) with nt Some Inr t show ?thesis by (auto intro: throws)
        next
          case (Inr v) with nt Some \<open>redis_get (clock f) k r = Inr s\<close> t show ?thesis by (auto intro: hit)
        qed
      qed
    qed
  qed
qed

text \<open>Time only makes a missing entry more missing: what is absent, expired or falsy
  in the local tier stays so, and likewise a miss of the shared tier.\<close>

lemma falsy_later:
  assumes "\<not> truthy_opt (LocalTier_peek now c k)" "now \<le> t"
  shows "\<not> truthy_opt (LocalTier_peek t c k)"
  using assms
  by (auto simp: LocalTier_peek_def truthy_opt_def expired_def split: option.splits if_splits)

lemma shared_miss_later:
  assumes "redis_get now k r = Inr s" "\<not> truthy_str s" "now \<le> t"
  obtains s' where "redis_get t k r = Inr s'" "\<not> truthy_str s'"
  using assms
  by (auto simp: redis_get_def truthy_str_def split: option.splits if_splits)

lemma after_fetch_count: "fetches (after (cacheWrapper_fetch g k ld rp)) = Suc (fetches g)"
  by (simp add: after_def fetch_count)

lemma reaches_loader:
  assumes "fetches (after (cacheWrapper parse f k ld rp)) = Suc (fetches f)"
  obtains g where "cacheWrapper parse f k ld rp = cacheWrapper_fetch g k ld rp"
    and "fetches g = fetches f" and "redis g = redis f" and "clock f \<le> clock g"
    and "memoryCache g = snd (LocalTier_get (clock f) k (memoryCache f))"
    and "\<not> truthy_opt (LocalTier_peek (clock f) (memoryCache f) k)"
    and "redis f = None \<or> (\<exists>r s. redis f = Some r \<and> redis_get (clock f) k r = Inr s \<and> \<not> truthy_str s)"
proof (cases rule: cw_cases [where f = f and k = k and parse = parse])
  case memory
  from cw_memory [OF this, of parse ld rp] assms show ?thesis by (simp add: after_def)
next
  case unconfigured
  from cw_unconfigured [OF this, of parse ld rp] unconfigured show ?thesis
    by (intro that [of "f\<lparr>memoryCache := snd (LocalTier_get (clock f) k (memoryCache f))\<rparr>"]) simp_all
next
  case (rejected r e)
  from cw_get_rejected [OF this, of parse ld rp] assms show ?thesis by (simp add: after_def)
next
  case (miss r s)
  from cw_shared_miss [OF this, of parse ld rp] miss show ?thesis
    by (intro that [of "f\<lparr>memoryCache := snd (LocalTier_get (clock f) k (memoryCache f)),
          clock := clock f + rtt r\<rparr>"]) simp_all
next
  case (throws r s e)
  from cw_parse_throws [where parse = parse and ld = ld and rp = rp, OF this] assms show ?thesis by (simp add: after_def)
next
  case (hit r s v)
  from cw_shared_hit [where parse = parse and ld = ld and rp = rp, OF this] assms show ?thesis by (simp add: after_def)
qed

lemma loader_reached:
  assumes "\<not> truthy_opt (LocalTier_peek (clock f) (memoryCache f) k)"
    and "redis f = None \<or> (\<exists>r s. redis f = Some r \<and> redis_get (clock f) k r = Inr s \<and> \<not> truthy_str s)"
  obtains g where "cacheWrapper parse f k ld rp = cacheWrapper_fetch g k ld rp"
    and "fetches g = fetches f" and "redis g = redis f" and "clock f \<le> clock g"
    and "memoryCache g = snd (LocalTier_get (clock f) k (memoryCache f))"
proof -
  from assms(2) show ?thesis
  proof (elim disjE exE conjE)
    assume n: "redis f = None"
    from cw_unconfigured [OF assms(1) n, of parse ld rp] show ?thesis
      by (intro that [of "f\<lparr>memoryCache := snd (LocalTier_get (clock f) k (memoryCache f))\<rparr>"]) simp_all
  next
    fix r s assume m: "redis f = Some r" "redis_get (clock f) k r = Inr s" "\<not> truthy_str s"
    from cw_shared_miss [OF assms(1) m, of parse ld rp] show ?thesis
      by (intro that [of "f\<lparr>memoryCache := snd (LocalTier_get (clock f) k (memoryCache f)),
          clock := clock f + rtt r\<rparr>"]) simp_all
  qed
qed

lemma second_call_memory:
  assumes "LocalTier_peek (clock g) (memoryCache g) k = Some v" "truthy v"
  shows "returned (cacheWrapper parse g k ld rp) = Inr v"
    "x_cache (cacheWrapper parse g k ld rp) = Some ''HIT-MEMORY''"
    "fetches (after (cacheWrapper parse g k ld rp)) = fetches g"
    "redis (after (cacheWrapper parse g k ld rp)) = redis g"
    "clock (after (cacheWrapper parse g k ld rp)) = clock g"
proof -
  have "truthy_opt (LocalTier_peek (clock g) (memoryCache g) k)"
    using assms by (simp add: truthy_opt_def)
  from cw_memory [OF this, of parse ld rp] assms(1)
  show "returned (cacheWrapper parse g k ld rp) = Inr v"
    "x_cache (cacheWrapper parse g k ld rp) = Some ''HIT-MEMORY''"
    "fetches (after (cacheWrapper parse g k ld rp)) = fetches g"
    "redis (after (cacheWrapper parse g k ld rp)) = redis g"
    "clock (after (cacheWrapper parse g k ld rp)) = clock g"
    by (simp_all add: returned_def x_cache_def after_def)
qed

lemma after_fetch_rejected:
  assumes "fst (ld (fetches g)) = Inl e"
  shows "returned (cacheWrapper_fetch g k ld rp) = Inl e"
    "x_cache (cacheWrapper_fetch g k ld rp) = Some ''MISS''"
    "redis (after (cacheWrapper_fetch g k ld rp)) = redis g"
    "memoryCache (after (cacheWrapper_fetch g k ld rp)) = memoryCache g"
    "clock g \<le> clock (after (cacheWrapper_fetch g k ld rp))"
  using assms
  by (cases "ld (fetches g)"; simp add: fetch_rejected returned_def x_cache_def after_def)+

lemma after_fetch_resolved:
  assumes "fst (ld (fetches g)) = Inr v"
  shows "returned (cacheWrapper_fetch g k ld rp) = Inr v"
    "x_cache (cacheWrapper_fetch g k ld rp) = Some ''MISS''"
    "redis (after (cacheWrapper_fetch g k ld rp)) =
       map_option (redis_set (clock (after (cacheWrapper_fetch g k ld rp))) k
         (JSON_stringify v) CACHE_TTL) (redis g)"
    "LocalTier_peek (clock (after (cacheWrapper_fetch g k ld rp)))
       (memoryCache (after (cacheWrapper_fetch g k ld rp))) k = Some v"
  using assms
  by (cases "ld (fetches g)";
      simp add: fetch_resolved returned_def x_cache_def after_def peek_set_same)+

lemma fetch_returned:
  "returned (cacheWrapper_fetch g k ld rp) = fst (ld (fetches g))"
  "x_cache (cacheWrapper_fetch g k ld rp) = Some ''MISS''"
  by (cases "ld (fetches g)"; cases "fst (ld (fetches g))";
      simp add: fetch_resolved fetch_rejected returned_def x_cache_def)+

lemma redis_get_seeded:
  assumes "get_error r = None" "store r k = Some (s, expiry)" "now < expiry"
  shows "redis_get now k r = Inr (Some s)"
  using assms by (simp add: redis_get_def)

lemma falsy_None: "LocalTier_peek now c k = None \<Longrightarrow> \<not> truthy_opt (LocalTier_peek now c k)"
  by (simp add: truthy_opt_def)

lemma falsy_Some: "LocalTier_peek now c k = Some v \<Longrightarrow> \<not> truthy v \<Longrightarrow> \<not> truthy_opt (LocalTier_peek now c k)"
  by (simp add: truthy_opt_def)

lemma after_shared_hit:
  assumes "\<not> truthy_opt (LocalTier_peek (clock f) (memoryCache f) k)" "redis f = Some r"
    "redis_get (clock f) k r = Inr (Some s)" "s \<noteq> []" "parse s = Inr v"
  shows "returned (cacheWrapper parse f k ld rp) = Inr v"
    "x_cache (cacheWrapper parse f k ld rp) = Some ''HIT-REDIS''"
    "fetches (after (cacheWrapper parse f k ld rp)) = fetches f"
    "redis (after (cacheWrapper parse f k ld rp)) = redis f"
    "LocalTier_peek (clock (after (cacheWrapper parse f k ld rp)))
       (memoryCache (after (cacheWrapper parse f k ld rp))) k = Some v"
  using cw_shared_hit [where parse = parse and ld = ld and rp = rp, OF assms] assms(2)
  by (simp_all add: returned_def x_cache_def after_def peek_set_same)

text \<open>A serialized value is never the empty text, and what a working shared tier has
  just been sent, it returns.\<close>

lemma show_nat_nonempty: "show_nat n \<noteq> []"
  by (subst show_nat.simps) simp

lemma JSON_stringify_nonempty: "JSON_stringify v \<noteq> []"
  by (cases v) (simp_all add: show_int_def show_nat_nonempty quote_def)

lemma redis_get_answers: "redis_get now k r = Inr s \<Longrightarrow> get_error r = None"
  by (simp add: redis_get_def split: option.splits)

lemma redis_get_after_set:
  assumes "get_error r = None" "set_error r = None"
  shows "redis_get now k (redis_set now k s CACHE_TTL r) = Inr (Some s)"
  using assms by (simp add: redis_get_def redis_set_def CACHE_TTL_def)

text \<open>The definitions that evaluating a call on a concrete state unfolds.\<close>

lemmas run =
  cacheWrapper_def cacheWrapper_fetch_def LocalTier_get_def LocalTier_set_def
  LocalTier_peek_def expired_def redis_get_def redis_set_def truthy_opt_def truthy_str_def
  returned_def x_cache_def after_def fresh_def memoryCache0_def new_LRUCache_def
  CACHE_TTL_def parse_literal_def constant_loader_def counting_loader_def
  failing_loader_def redis_holding_def redis_unreachable_def Let_def

section \<open>The cache key: claim C2\<close>

text \<open>
  Counterexample to claim C2 as stated (the key does not depend on the order of the
  bag): the bags \<^verbatim>\<open>{query: "a", page: 1}\<close> and \<^verbatim>\<open>{page: 1, query: "a"}\<close>
  hold the same keys with the same values, and \<^verbatim>\<open>getCacheKey\<close> gives them
  different keys, because \<^verbatim>\<open>JSON.stringify\<close> writes the properties in the
  order in which the object lists them and nothing sorts them.
\<close>

theorem getCacheKey_order_counterexample:
  "map_of [(''query'', Some (JStr ''a'')), (''page'', Some (JNum 1))]
     = map_of [(''page'', Some (JNum 1)), (''query'', Some (JStr ''a''))]
   \<and> getCacheKey ''search'' [(''query'', Some (JStr ''a'')), (''page'', Some (JNum 1))]
     \<noteq> getCacheKey ''search'' [(''page'', Some (JNum 1)), (''query'', Some (JStr ''a''))]"
  by (auto simp: getCacheKey_def quote_def quote_char_def fun_eq_iff)

text \<open>
  Claim C2, amended: \<^verbatim>\<open>getCacheKey\<close> is a function of the route and of the
  defined properties of the bag in the order in which the bag lists them. Two bags
  whose defined (not \<^verbatim>\<open>undefined\<close>) properties are the same keys, in the same
  order, with the same values, get the same key; properties that are
  \<^verbatim>\<open>undefined\<close> make no difference.
\<close>

theorem getCacheKey_same_order:
  assumes "distinct (map fst (defined_props p1))"
    and "map fst (defined_props p1) = map fst (defined_props p2)"
    and "map_of (defined_props p1) = map_of (defined_props p2)"
  shows "getCacheKey route p1 = getCacheKey route p2"
  using bag_eq [OF assms] by (simp add: getCacheKey_def)

text \<open>
  Witness for claim C2: the bag of the \<^verbatim>\<open>/info/:id\<close> route without a provider,
  \<^verbatim>\<open>{id: "550", type: "movie", provider: undefined}\<close>, and the bag
  \<^verbatim>\<open>{id: "550", type: "movie"}\<close> get the same key.
\<close>

theorem getCacheKey_same_order_witness:
  "distinct (map fst (defined_props
      [(''id'', Some (JStr ''550'')), (''type'', Some (JStr ''movie'')), (''provider'', None)]))
   \<and> map fst (defined_props
      [(''id'', Some (JStr ''550'')), (''type'', Some (JStr ''movie'')), (''provider'', None)])
     = map fst (defined_props [(''id'', Some (JStr ''550'')), (''type'', Some (JStr ''movie''))])
   \<and> map_of (defined_props
      [(''id'', Some (JStr ''550'')), (''type'', Some (JStr ''movie'')), (''provider'', None)])
     = map_of (defined_props [(''id'', Some (JStr ''550'')), (''type'', Some (JStr ''movie''))])
   \<and> getCacheKey ''info''
      [(''id'', Some (JStr ''550'')), (''type'', Some (JStr ''movie'')), (''provider'', None)]
     = getCacheKey ''info'' [(''id'', Some (JStr ''550'')), (''type'', Some (JStr ''movie''))]"
proof -
  let ?p1 = "[(''id'', Some (JStr ''550'')), (''type'', Some (JStr ''movie'')), (''provider'', None)]"
  let ?p2 = "[(''id'', Some (JStr ''550'')), (''type'', Some (JStr ''movie''))]"
  have h1: "distinct (map fst (defined_props ?p1))" by simp
  have h2: "map fst (defined_props ?p1) = map fst (defined_props ?p2)" by simp
  have h3: "map_of (defined_props ?p1) = map_of (defined_props ?p2)" by simp
  from getCacheKey_same_order [OF h1 h2 h3, of "''info''"] h1 h2 h3
  show ?thesis by blast
qed

section \<open>The local tier: claim C9\<close>

text \<open>
  Claim C9: the local tier obeys TTL and LRU semantics. An entry stored at time
  \<open>now\<close> is not returned by \<^verbatim>\<open>get\<close> at any time \<open>t\<close> after its time-to-live
  has elapsed. An insertion of a new key into a tier at capacity evicts exactly the
  least recently used entry (the head). The scenario, at any one time \<open>now\<close> and for
  any time-to-live: with \<open>maxEntries = 2\<close>, after inserting A, B, C in this order,
  \<^verbatim>\<open>get(A)\<close> is absent and \<^verbatim>\<open>get(B)\<close>, \<^verbatim>\<open>get(C)\<close> are present; after then
  accessing B and inserting D, \<^verbatim>\<open>get(B)\<close> and \<^verbatim>\<open>get(D)\<close> are present and
  \<^verbatim>\<open>get(C)\<close> is absent.
\<close>

theorem LocalTier_ttl_and_lru:
  "(now + ttl c < t \<longrightarrow> fst (LocalTier_get t k (LocalTier_set now k v c)) = None)
   \<and> (map_of (items c) k = None \<and> maxEntries c \<le> length (items c) \<longrightarrow>
        items (LocalTier_set now k v c) = tl (items c) @ [(k, v, now)])
   \<and> (let c0 = new_LRUCache 2 T;
           c1 = LocalTier_set now ''A'' a c0;
           c2 = LocalTier_set now ''B'' b c1;
           c3 = LocalTier_set now ''C'' d c2;
           (gA, c4) = LocalTier_get now ''A'' c3;
           (gB, c5) = LocalTier_get now ''B'' c4;
           (gC, c6) = LocalTier_get now ''C'' c5;
           (hB, c7) = LocalTier_get now ''B'' c6;
           c8 = LocalTier_set now ''D'' e c7;
           (iB, c9) = LocalTier_get now ''B'' c8;
           (iC, c10) = LocalTier_get now ''C'' c9;
           (iD, c11) = LocalTier_get now ''D'' c10
       in gA = None \<and> gB = Some b \<and> gC = Some d \<and> hB = Some b
          \<and> iB = Some b \<and> iC = None \<and> iD = Some e)"
proof (intro conjI impI)
  assume "now + ttl c < t"
  then show "fst (LocalTier_get t k (LocalTier_set now k v c)) = None"
    by (simp add: get_peek peek_set_same)
next
  assume "map_of (items c) k = None \<and> maxEntries c \<le> length (items c)"
  then show "items (LocalTier_set now k v c) = tl (items c) @ [(k, v, now)]"
    by (simp add: LocalTier_set_def)
next
  show "let c0 = new_LRUCache 2 T;
           c1 = LocalTier_set now ''A'' a c0;
           c2 = LocalTier_set now ''B'' b c1;
           c3 = LocalTier_set now ''C'' d c2;
           (gA, c4) = LocalTier_get now ''A'' c3;
           (gB, c5) = LocalTier_get now ''B'' c4;
           (gC, c6) = LocalTier_get now ''C'' c5;
           (hB, c7) = LocalTier_get now ''B'' c6;
           c8 = LocalTier_set now ''D'' e c7;
           (iB, c9) = LocalTier_get now ''B'' c8;
           (iC, c10) = LocalTier_get now ''C'' c9;
           (iD, c11) = LocalTier_get now ''D'' c10
       in gA = None \<and> gB = Some b \<and> gC = Some d \<and> hB = Some b
          \<and> iB = Some b \<and> iC = None \<and> iD = Some e"
    by (simp add: new_LRUCache_def LocalTier_set_def LocalTier_get_def expired_def
        AList.delete_eq)
qed

text \<open>
  Witness for claim C9: a tier of capacity 2 and time-to-live 5 that holds X and Y.
  Z, inserted at time 0, is gone at time 6, and its insertion evicted X.
\<close>

theorem LocalTier_ttl_and_lru_witness:
  "(0::nat) + ttl (LocalTier_set 0 ''Y'' JNull (LocalTier_set 0 ''X'' JNull (new_LRUCache 2 5))) < 6
   \<and> fst (LocalTier_get 6 ''Z''
        (LocalTier_set 0 ''Z'' (JBool True)
          (LocalTier_set 0 ''Y'' JNull (LocalTier_set 0 ''X'' JNull (new_LRUCache 2 5))))) = None
   \<and> map_of (items (LocalTier_set 0 ''Y'' JNull (LocalTier_set 0 ''X'' JNull (new_LRUCache 2 5))))
        ''Z'' = None
   \<and> maxEntries (LocalTier_set 0 ''Y'' JNull (LocalTier_set 0 ''X'' JNull (new_LRUCache 2 5)))
        \<le> length (items (LocalTier_set 0 ''Y'' JNull (LocalTier_set 0 ''X'' JNull (new_LRUCache 2 5))))
   \<and> items (LocalTier_set 0 ''Z'' (JBool True)
        (LocalTier_set 0 ''Y'' JNull (LocalTier_set 0 ''X'' JNull (new_LRUCache 2 5))))
       = [(''Y'', JNull, 0), (''Z'', JBool True, 0)]"
proof -
  let ?c = "LocalTier_set 0 ''Y'' JNull (LocalTier_set 0 ''X'' JNull (new_LRUCache 2 5))"
  have c: "?c = \<lparr>maxEntries = 2, ttl = 5, items = [(''X'', JNull, 0), (''Y'', JNull, 0)]\<rparr>"
    by (simp add: new_LRUCache_def LocalTier_set_def)
  have h1: "(0::nat) + ttl ?c < 6" unfolding c by simp
  have h2: "map_of (items ?c) ''Z'' = None \<and> maxEntries ?c \<le> length (items ?c)"
    unfolding c by simp
  from LocalTier_ttl_and_lru [where now = 0 and c = ?c and t = 6 and k = "''Z''" and v = "JBool True"]
  have "fst (LocalTier_get 6 ''Z'' (LocalTier_set 0 ''Z'' (JBool True) ?c)) = None"
    and "items (LocalTier_set 0 ''Z'' (JBool True) ?c) = tl (items ?c) @ [(''Z'', JBool True, 0)]"
    using h1 h2 by blast+
  then show ?thesis using h1 h2 unfolding c by simp
qed

section \<open>Failures of the shared tier: claim C1\<close>

text \<open>
  Counterexample to claim C1 as stated (a failing shared tier is treated as a miss):
  on a fresh process whose Redis client rejects every command, the call for a key
  that the local tier does not hold rejects with the error of \<^verbatim>\<open>redis.get\<close>;
  the loader is not invoked, no \<^verbatim>\<open>X-Cache\<close> header is set and the local tier
  is not populated. Likewise, when Redis holds the text \<^verbatim>\<open>{oops\<close> for the key,
  the call rejects with the \<^verbatim>\<open>SyntaxError\<close> of \<^verbatim>\<open>JSON.parse\<close>.
\<close>

theorem shared_failure_counterexample:
  "returned (cacheWrapper parse_literal (fresh (Some redis_unreachable)) ''K''
      (constant_loader (JStr ''fresh'')) Map.empty) = Inl (Error ''ECONNREFUSED'')
   \<and> x_cache (cacheWrapper parse_literal (fresh (Some redis_unreachable)) ''K''
      (constant_loader (JStr ''fresh'')) Map.empty) = None
   \<and> fetches (after (cacheWrapper parse_literal (fresh (Some redis_unreachable)) ''K''
      (constant_loader (JStr ''fresh'')) Map.empty)) = 0
   \<and> LocalTier_peek 2 (memoryCache (after (cacheWrapper parse_literal
      (fresh (Some redis_unreachable)) ''K'' (constant_loader (JStr ''fresh'')) Map.empty)))
      ''K'' = None
   \<and> returned (cacheWrapper parse_literal
      (fresh (Some (redis_holding [''K'' \<mapsto> (''{oops'', 1000)]))) ''K''
      (constant_loader (JStr ''fresh'')) Map.empty) = Inl (SyntaxError ''{oops'')"
  by (simp add: run)

text \<open>
  Claim C1, amended: nothing in \<^verbatim>\<open>cacheWrapper\<close> catches. If the shared tier
  is configured and, after the local-tier check has failed, its \<^verbatim>\<open>get\<close> is
  rejected or the stored text fails to deserialize, then the call rejects with that
  error: the loader is not invoked, no \<^verbatim>\<open>X-Cache\<close> header is set, the shared
  tier is unchanged and the content of the local tier is unchanged.
\<close>

theorem shared_failure_propagates:
  assumes "\<not> truthy_opt (LocalTier_peek (clock f) (memoryCache f) k)"
    and "redis f = Some r"
    and "redis_get (clock f) k r = Inl e
         \<or> (\<exists>s. redis_get (clock f) k r = Inr (Some s) \<and> s \<noteq> [] \<and> parse s = Inl e)"
    and "clock f \<le> t"
  shows "returned (cacheWrapper parse f k ld rp) = Inl e
    \<and> x_cache (cacheWrapper parse f k ld rp) = rp ''X-Cache''
    \<and> fetches (after (cacheWrapper parse f k ld rp)) = fetches f
    \<and> redis (after (cacheWrapper parse f k ld rp)) = redis f
    \<and> LocalTier_peek t (memoryCache (after (cacheWrapper parse f k ld rp))) k'
        = LocalTier_peek t (memoryCache f) k'"
proof -
  have "cacheWrapper parse f k ld rp =
    (Inl e, rp, f\<lparr>memoryCache := snd (LocalTier_get (clock f) k (memoryCache f)),
                  clock := clock f + rtt r\<rparr>)"
    using assms(3)
  proof (elim disjE exE conjE)
    assume "redis_get (clock f) k r = Inl e"
    with assms(1,2) show ?thesis by (rule cw_get_rejected)
  next
    fix s assume "redis_get (clock f) k r = Inr (Some s)" "s \<noteq> []" "parse s = Inl e"
    with assms(1,2) show ?thesis by (rule cw_parse_throws)
  qed
  then show ?thesis
    using assms(2,4) by (simp add: returned_def x_cache_def after_def peek_get_later)
qed

text \<open>
  Witness for claim C1: the fresh process with the unreachable Redis client.
\<close>

theorem shared_failure_propagates_witness:
  "\<not> truthy_opt (LocalTier_peek (clock (fresh (Some redis_unreachable)))
       (memoryCache (fresh (Some redis_unreachable))) ''K'')
   \<and> redis (fresh (Some redis_unreachable)) = Some redis_unreachable
   \<and> redis_get (clock (fresh (Some redis_unreachable))) ''K'' redis_unreachable
       = Inl (Error ''ECONNREFUSED'')
   \<and> returned (cacheWrapper parse_literal (fresh (Some redis_unreachable)) ''K''
        (constant_loader (JStr ''fresh'')) Map.empty) = Inl (Error ''ECONNREFUSED'')
   \<and> fetches (after (cacheWrapper parse_literal (fresh (Some redis_unreachable)) ''K''
        (constant_loader (JStr ''fresh'')) Map.empty)) = 0"
proof -
  let ?f = "fresh (Some redis_unreachable)"
  have h1: "\<not> truthy_opt (LocalTier_peek (clock ?f) (memoryCache ?f) ''K'')"
    by (simp add: run)
  have h2: "redis ?f = Some redis_unreachable"
    by (simp add: fresh_def)
  have g: "redis_get (clock ?f) ''K'' redis_unreachable = Inl (Error ''ECONNREFUSED'')"
    by (simp add: run)
  then have h3: "redis_get (clock ?f) ''K'' redis_unreachable = Inl (Error ''ECONNREFUSED'')
      \<or> (\<exists>s. redis_get (clock ?f) ''K'' redis_unreachable = Inr (Some s) \<and> s \<noteq> []
            \<and> parse_literal s = Inl (Error ''ECONNREFUSED''))"
    by (rule disjI1)
  have h4: "clock ?f \<le> 0"
    by (simp add: fresh_def)
  have f0: "fetches ?f = 0"
    by (simp add: fresh_def)
  from shared_failure_propagates [where parse = parse_literal and f = ?f and k = "''K''"
      and r = redis_unreachable and e = "Error ''ECONNREFUSED''" and t = 0
      and ld = "constant_loader (JStr ''fresh'')" and rp = Map.empty and k' = "''K''",
      OF h1 h2 h3 h4] h1 h2 g f0
  show ?thesis by simp
qed

section \<open>The lookup sequence: claim C3\<close>

text \<open>
  Counterexample to claim C3 as stated (a key held by the local tier is returned with
  the label MEMORY and the loader is never invoked): the local tier holds the value
  \<^verbatim>\<open>0\<close> for the key and there is no shared tier; \<^verbatim>\<open>if (memoryCachedData)\<close>
  fails on the falsy value, the loader is invoked and the reply is labelled
  \<^verbatim>\<open>MISS\<close>.
\<close>

theorem falsy_local_counterexample:
  "LocalTier_peek 0 (LocalTier_set 0 ''K'' (JNum 0) memoryCache0) ''K'' = Some (JNum 0)
   \<and> returned (cacheWrapper parse_literal
        ((fresh None)\<lparr>memoryCache := LocalTier_set 0 ''K'' (JNum 0) memoryCache0\<rparr>) ''K''
        (constant_loader (JStr ''fresh'')) Map.empty) = Inr (JStr ''fresh'')
   \<and> x_cache (cacheWrapper parse_literal
        ((fresh None)\<lparr>memoryCache := LocalTier_set 0 ''K'' (JNum 0) memoryCache0\<rparr>) ''K''
        (constant_loader (JStr ''fresh'')) Map.empty) = Some ''MISS''
   \<and> fetches (after (cacheWrapper parse_literal
        ((fresh None)\<lparr>memoryCache := LocalTier_set 0 ''K'' (JNum 0) memoryCache0\<rparr>) ''K''
        (constant_loader (JStr ''fresh'')) Map.empty)) = 1"
  by (simp add: run)

text \<open>
  Claim C3, amended: \<^verbatim>\<open>cacheWrapper\<close> follows this sequence. If the local tier
  holds a truthy value for the key, it returns that value labelled
  \<^verbatim>\<open>HIT-MEMORY\<close>; the state changes in nothing but the recency order of the
  local tier, so neither the loader nor the shared tier is involved. Otherwise, if the
  shared tier is configured and its \<^verbatim>\<open>get\<close> returns a non-empty text that
  \<^verbatim>\<open>JSON.parse\<close> accepts, the parsed value is written to the local tier and
  returned labelled \<^verbatim>\<open>HIT-REDIS\<close>, without invoking the loader. Otherwise (the
  shared tier is unconfigured, or returns nothing or the empty text), the loader is
  invoked, and when it succeeds its value is stored in the local tier, sent to the
  shared tier as \<^verbatim>\<open>SET key JSON.stringify(value) EX CACHE_TTL\<close>, and returned
  labelled \<^verbatim>\<open>MISS\<close>.
\<close>

theorem cacheWrapper_sequence:
  "(LocalTier_peek (clock f) (memoryCache f) k = Some v \<and> truthy v \<longrightarrow>
      cacheWrapper parse f k ld rp =
        (Inr v, rp(''X-Cache'' \<mapsto> ''HIT-MEMORY''),
         f\<lparr>memoryCache := snd (LocalTier_get (clock f) k (memoryCache f))\<rparr>))
   \<and> (\<not> truthy_opt (LocalTier_peek (clock f) (memoryCache f) k) \<and> redis f = Some r
        \<and> redis_get (clock f) k r = Inr (Some s) \<and> s \<noteq> [] \<and> parse s = Inr v \<longrightarrow>
      returned (cacheWrapper parse f k ld rp) = Inr v
      \<and> x_cache (cacheWrapper parse f k ld rp) = Some ''HIT-REDIS''
      \<and> fetches (after (cacheWrapper parse f k ld rp)) = fetches f
      \<and> redis (after (cacheWrapper parse f k ld rp)) = redis f
      \<and> LocalTier_peek (clock (after (cacheWrapper parse f k ld rp)))
           (memoryCache (after (cacheWrapper parse f k ld rp))) k = Some v)
   \<and> (\<not> truthy_opt (LocalTier_peek (clock f) (memoryCache f) k)
        \<and> (redis f = None
            \<or> (\<exists>r s. redis f = Some r \<and> redis_get (clock f) k r = Inr s \<and> \<not> truthy_str s))
        \<and> fst (ld (fetches f)) = Inr v \<longrightarrow>
      returned (cacheWrapper parse f k ld rp) = Inr v
      \<and> x_cache (cacheWrapper parse f k ld rp) = Some ''MISS''
      \<and> fetches (after (cacheWrapper parse f k ld rp)) = Suc (fetches f)
      \<and> LocalTier_peek (clock (after (cacheWrapper parse f k ld rp)))
           (memoryCache (after (cacheWrapper parse f k ld rp))) k = Some v
      \<and> redis (after (cacheWrapper parse f k ld rp)) =
           map_option (redis_set (clock (after (cacheWrapper parse f k ld rp))) k
             (JSON_stringify v) CACHE_TTL) (redis f))"
proof (intro conjI impI)
  assume a: "LocalTier_peek (clock f) (memoryCache f) k = Some v \<and> truthy v"
  then have "truthy_opt (LocalTier_peek (clock f) (memoryCache f) k)"
    by (simp add: truthy_opt_def)
  from cw_memory [OF this, of parse ld rp] a
  show "cacheWrapper parse f k ld rp =
        (Inr v, rp(''X-Cache'' \<mapsto> ''HIT-MEMORY''),
         f\<lparr>memoryCache := snd (LocalTier_get (clock f) k (memoryCache f))\<rparr>)"
    by simp
next
  assume a: "\<not> truthy_opt (LocalTier_peek (clock f) (memoryCache f) k) \<and> redis f = Some r
        \<and> redis_get (clock f) k r = Inr (Some s) \<and> s \<noteq> [] \<and> parse s = Inr v"
  then have h: "\<not> truthy_opt (LocalTier_peek (clock f) (memoryCache f) k)" "redis f = Some r"
    "redis_get (clock f) k r = Inr (Some s)" "s \<noteq> []" "parse s = Inr v"
    by simp_all
  note hit = after_shared_hit [where parse = parse and ld = ld and rp = rp, OF h]
  show "returned (cacheWrapper parse f k ld rp) = Inr v" by (rule hit)
  show "x_cache (cacheWrapper parse f k ld rp) = Some ''HIT-REDIS''" by (rule hit)
  show "fetches (after (cacheWrapper parse f k ld rp)) = fetches f" by (rule hit)
  show "redis (after (cacheWrapper parse f k ld rp)) = redis f" by (rule hit)
  show "LocalTier_peek (clock (after (cacheWrapper parse f k ld rp)))
           (memoryCache (after (cacheWrapper parse f k ld rp))) k = Some v" by (rule hit)
next
  assume a: "\<not> truthy_opt (LocalTier_peek (clock f) (memoryCache f) k)
        \<and> (redis f = None
            \<or> (\<exists>r s. redis f = Some r \<and> redis_get (clock f) k r = Inr s \<and> \<not> truthy_str s))
        \<and> fst (ld (fetches f)) = Inr v"
  then have falsy: "\<not> truthy_opt (LocalTier_peek (clock f) (memoryCache f) k)"
    and shared: "redis f = None
            \<or> (\<exists>r s. redis f = Some r \<and> redis_get (clock f) k r = Inr s \<and> \<not> truthy_str s)"
    and v: "fst (ld (fetches f)) = Inr v"
    by simp_all
  from loader_reached [OF falsy shared, of parse ld rp]
  obtain g where g: "cacheWrapper parse f k ld rp = cacheWrapper_fetch g k ld rp"
    "fetches g = fetches f" "redis g = redis f"
    by blast
  from v g(2) have v': "fst (ld (fetches g)) = Inr v" by simp
  note ok = after_fetch_resolved [where ld = ld and g = g and k = k and rp = rp, OF v']
  show "returned (cacheWrapper parse f k ld rp) = Inr v" unfolding g(1) by (rule ok)
  show "x_cache (cacheWrapper parse f k ld rp) = Some ''MISS''" unfolding g(1) by (rule ok)
  show "fetches (after (cacheWrapper parse f k ld rp)) = Suc (fetches f)"
    unfolding g(1) using g(2) by (simp add: after_fetch_count)
  show "LocalTier_peek (clock (after (cacheWrapper parse f k ld rp)))
           (memoryCache (after (cacheWrapper parse f k ld rp))) k = Some v"
    unfolding g(1) by (rule ok)
  show "redis (after (cacheWrapper parse f k ld rp)) =
           map_option (redis_set (clock (after (cacheWrapper parse f k ld rp))) k
             (JSON_stringify v) CACHE_TTL) (redis f)"
    unfolding g(1) using ok(3) g(3) by simp
qed

text \<open>
  Witness for claim C3, one state for each step: a local tier that holds a string
  (with an unreachable Redis client, which is never asked); an empty local tier and a
  Redis that holds the text \<^verbatim>\<open>true\<close>; both tiers empty.
\<close>

theorem cacheWrapper_sequence_witness:
  "cacheWrapper parse_literal
      ((fresh (Some redis_unreachable))
         \<lparr>memoryCache := LocalTier_set 0 ''K'' (JStr ''cached'') memoryCache0\<rparr>)
      ''K'' (constant_loader (JStr ''fresh'')) Map.empty
     = (Inr (JStr ''cached''), [''X-Cache'' \<mapsto> ''HIT-MEMORY''],
        (fresh (Some redis_unreachable))
          \<lparr>memoryCache := LocalTier_set 0 ''K'' (JStr ''cached'') memoryCache0\<rparr>)
   \<and> returned (cacheWrapper parse_literal
        (fresh (Some (redis_holding [''K'' \<mapsto> (''true'', 1000)]))) ''K''
        (constant_loader (JStr ''fresh'')) Map.empty) = Inr (JBool True)
   \<and> x_cache (cacheWrapper parse_literal
        (fresh (Some (redis_holding [''K'' \<mapsto> (''true'', 1000)]))) ''K''
        (constant_loader (JStr ''fresh'')) Map.empty) = Some ''HIT-REDIS''
   \<and> fetches (after (cacheWrapper parse_literal
        (fresh (Some (redis_holding [''K'' \<mapsto> (''true'', 1000)]))) ''K''
        (constant_loader (JStr ''fresh'')) Map.empty)) = 0
   \<and> returned (cacheWrapper parse_literal (fresh (Some (redis_holding Map.empty))) ''K''
        (constant_loader (JStr ''fresh'')) Map.empty) = Inr (JStr ''fresh'')
   \<and> x_cache (cacheWrapper parse_literal (fresh (Some (redis_holding Map.empty))) ''K''
        (constant_loader (JStr ''fresh'')) Map.empty) = Some ''MISS''
   \<and> fetches (after (cacheWrapper parse_literal (fresh (Some (redis_holding Map.empty))) ''K''
        (constant_loader (JStr ''fresh'')) Map.empty)) = 1"
proof -
  let ?ld = "constant_loader (JStr ''fresh'')"
  let ?a = "(fresh (Some redis_unreachable))
         \<lparr>memoryCache := LocalTier_set 0 ''K'' (JStr ''cached'') memoryCache0\<rparr>"
  let ?rb = "redis_holding [''K'' \<mapsto> (''true'', 1000)]"
  let ?b = "fresh (Some ?rb)"
  let ?rc = "redis_holding Map.empty"
  let ?c = "fresh (Some ?rc)"
  have a: "LocalTier_peek (clock ?a) (memoryCache ?a) ''K'' = Some (JStr ''cached'')
      \<and> truthy (JStr ''cached'')"
    by (simp add: run)
  have a': "snd (LocalTier_get (clock ?a) ''K'' (memoryCache ?a)) = memoryCache ?a"
    by (simp add: run)
  have b: "\<not> truthy_opt (LocalTier_peek (clock ?b) (memoryCache ?b) ''K'') \<and> redis ?b = Some ?rb
      \<and> redis_get (clock ?b) ''K'' ?rb = Inr (Some ''true'') \<and> ''true'' \<noteq> []
      \<and> parse_literal ''true'' = Inr (JBool True)"
    by (simp add: run)
  have "redis ?c = Some ?rc \<and> redis_get (clock ?c) ''K'' ?rc = Inr None \<and> \<not> truthy_str None"
    by (simp add: run)
  then have c2: "redis ?c = None
      \<or> (\<exists>r s. redis ?c = Some r \<and> redis_get (clock ?c) ''K'' r = Inr s \<and> \<not> truthy_str s)"
    by blast
  have c1: "\<not> truthy_opt (LocalTier_peek (clock ?c) (memoryCache ?c) ''K'')"
    by (simp add: run)
  have c3: "fst (?ld (fetches ?c)) = Inr (JStr ''fresh'')"
    by (simp add: run)
  have fb: "fetches ?b = 0" and fc: "fetches ?c = 0"
    by (simp_all add: fresh_def)
  from cacheWrapper_sequence [where f = ?a and k = "''K''" and v = "JStr ''cached''"
      and parse = parse_literal and ld = ?ld and rp = Map.empty, THEN conjunct1] a a'
  have A: "cacheWrapper parse_literal ?a ''K'' ?ld Map.empty
     = (Inr (JStr ''cached''), [''X-Cache'' \<mapsto> ''HIT-MEMORY''], ?a)"
    by simp
  from cacheWrapper_sequence [where f = ?b and k = "''K''" and v = "JBool True"
      and parse = parse_literal and ld = ?ld and rp = Map.empty and r = ?rb and s = "''true''",
      THEN conjunct2, THEN conjunct1] b fb
  have B: "returned (cacheWrapper parse_literal ?b ''K'' ?ld Map.empty) = Inr (JBool True)
    \<and> x_cache (cacheWrapper parse_literal ?b ''K'' ?ld Map.empty) = Some ''HIT-REDIS''
    \<and> fetches (after (cacheWrapper parse_literal ?b ''K'' ?ld Map.empty)) = 0"
    by simp
  from cacheWrapper_sequence [where f = ?c and k = "''K''" and v = "JStr ''fresh''"
      and parse = parse_literal and ld = ?ld and rp = Map.empty,
      THEN conjunct2, THEN conjunct2] c1 c2 c3 fc
  have C: "returned (cacheWrapper parse_literal ?c ''K'' ?ld Map.empty) = Inr (JStr ''fresh'')
    \<and> x_cache (cacheWrapper parse_literal ?c ''K'' ?ld Map.empty) = Some ''MISS''
    \<and> fetches (after (cacheWrapper parse_literal ?c ''K'' ?ld Map.empty)) = 1"
    by simp
  from A B C show ?thesis by simp
qed

section \<open>Read-through: claim C4\<close>

text \<open>
  Counterexample to claim C4 as stated (the second of two calls in immediate
  succession returns the value of the first loader invocation, and the loader is
  invoked once): without a shared tier and with a loader that resolves with 0, then
  1, the first call returns 0, the second call invokes the loader again and returns 1
  labelled \<^verbatim>\<open>MISS\<close>, because the cached 0 is falsy and no other tier holds
  it.
\<close>

theorem read_through_counterexample:
  "returned (cacheWrapper parse_literal (fresh None) ''K'' counting_loader Map.empty)
     = Inr (JNum 0)
   \<and> returned (cacheWrapper parse_literal
        (after (cacheWrapper parse_literal (fresh None) ''K'' counting_loader Map.empty))
        ''K'' counting_loader Map.empty) = Inr (JNum 1)
   \<and> x_cache (cacheWrapper parse_literal
        (after (cacheWrapper parse_literal (fresh None) ''K'' counting_loader Map.empty))
        ''K'' counting_loader Map.empty) = Some ''MISS''
   \<and> fetches (after (cacheWrapper parse_literal
        (after (cacheWrapper parse_literal (fresh None) ''K'' counting_loader Map.empty))
        ''K'' counting_loader Map.empty)) = 2"
  by (simp add: run)

text \<open>
  Claim C4, amended: if a call invokes the loader and returns its value \<open>v\<close>, and
  either \<open>v\<close> is truthy, or the shared tier is configured, accepts the
  \<^verbatim>\<open>SET\<close> and \<^verbatim>\<open>JSON.parse\<close> gives \<open>v\<close> back from the text
  \<^verbatim>\<open>JSON.stringify\<close> made of it, then a second call for the same key in
  immediate succession (with any loader) returns \<open>v\<close>, served from a tier (labelled
  \<^verbatim>\<open>HIT-MEMORY\<close> when \<open>v\<close> is truthy, \<^verbatim>\<open>HIT-REDIS\<close> when it is falsy),
  and the loader has been invoked exactly once across the two calls.
\<close>

theorem read_through_served:
  assumes "fetches (after (cacheWrapper parse f k ld rp)) = Suc (fetches f)"
    and "returned (cacheWrapper parse f k ld rp) = Inr v"
    and "truthy v
         \<or> (\<exists>r. redis f = Some r \<and> set_error r = None \<and> parse (JSON_stringify v) = Inr v)"
  shows "fst (ld (fetches f)) = Inr v
    \<and> x_cache (cacheWrapper parse f k ld rp) = Some ''MISS''
    \<and> returned (cacheWrapper parse (after (cacheWrapper parse f k ld rp)) k ld' rp') = Inr v
    \<and> x_cache (cacheWrapper parse (after (cacheWrapper parse f k ld rp)) k ld' rp')
        = Some (if truthy v then ''HIT-MEMORY'' else ''HIT-REDIS'')
    \<and> fetches (after (cacheWrapper parse (after (cacheWrapper parse f k ld rp)) k ld' rp'))
        = Suc (fetches f)"
proof -
  from assms(1) obtain g where g: "cacheWrapper parse f k ld rp = cacheWrapper_fetch g k ld rp"
    "fetches g = fetches f" "redis g = redis f"
    and shared: "redis f = None \<or>
      (\<exists>r s. redis f = Some r \<and> redis_get (clock f) k r = Inr s \<and> \<not> truthy_str s)"
    by (rule reaches_loader)
  obtain res d where ld: "ld (fetches g) = (res, d)"
    by (cases "ld (fetches g)")
  have res: "res = Inr v"
  proof (cases res)
    case (Inl e)
    with ld have "cacheWrapper_fetch g k ld rp = (Inl e, rp(''X-Cache'' \<mapsto> ''MISS''),
       g\<lparr>clock := clock g + d, fetches := Suc (fetches g)\<rparr>)"
      by (simp add: fetch_rejected)
    with assms(2) g(1) show ?thesis by (simp add: returned_def)
  next
    case (Inr w)
    with ld have "cacheWrapper_fetch g k ld rp = (Inr w, rp(''X-Cache'' \<mapsto> ''MISS''),
     g\<lparr>clock := clock g + d, fetches := Suc (fetches g),
       memoryCache := LocalTier_set (clock g + d) k w (memoryCache g),
       redis := map_option (redis_set (clock g + d) k (JSON_stringify w) CACHE_TTL) (redis g)\<rparr>)"
      by (simp add: fetch_resolved)
    with assms(2) g(1) Inr show ?thesis by (simp add: returned_def)
  qed
  let ?h = "g\<lparr>clock := clock g + d, fetches := Suc (fetches g),
       memoryCache := LocalTier_set (clock g + d) k v (memoryCache g),
       redis := map_option (redis_set (clock g + d) k (JSON_stringify v) CACHE_TTL) (redis g)\<rparr>"
  have first: "cacheWrapper parse f k ld rp = (Inr v, rp(''X-Cache'' \<mapsto> ''MISS''), ?h)"
    using g(1) ld res by (simp add: fetch_resolved)
  have h: "after (cacheWrapper parse f k ld rp) = ?h"
    by (simp add: first after_def)
  have pk: "LocalTier_peek (clock ?h) (memoryCache ?h) k = Some v"
    by (simp add: peek_set_same)
  have c12: "fst (ld (fetches f)) = Inr v"
    "x_cache (cacheWrapper parse f k ld rp) = Some ''MISS''"
    using g(2) ld res first by (simp_all add: x_cache_def)
  show ?thesis
  proof (cases "truthy v")
    case True
    note second = second_call_memory [OF pk True, of parse ld' rp']
    show ?thesis
      unfolding h using second g(2) c12 True by simp
  next
    case False
    with assms(3) obtain r where r: "redis f = Some r" "set_error r = None"
      "parse (JSON_stringify v) = Inr v"
      by blast
    from shared r(1) have ge: "get_error r = None"
      by (auto dest: redis_get_answers)
    have rh: "redis ?h = Some (redis_set (clock ?h) k (JSON_stringify v) CACHE_TTL r)"
      using g(3) r(1) by simp
    note hit = after_shared_hit [where parse = parse and ld = ld' and rp = rp',
        OF falsy_Some [OF pk False] rh redis_get_after_set [OF ge r(2)]
          JSON_stringify_nonempty r(3)]
    show ?thesis
      unfolding h using hit(1,2,3) g(2) c12 False by simp
  qed
qed

text \<open>
  Witness for claim C4, one state for each case: without a shared tier, the loader's
  second answer, 1, is truthy and the call after it is served from the local tier;
  with a working Redis, the loader's first answer, 0, is falsy and the call after it
  is served from Redis.
\<close>

theorem read_through_served_witness:
  "fetches (after (cacheWrapper parse_literal ((fresh None)\<lparr>fetches := 1\<rparr>) ''K''
      counting_loader Map.empty)) = Suc (fetches ((fresh None)\<lparr>fetches := 1\<rparr>))
   \<and> returned (cacheWrapper parse_literal ((fresh None)\<lparr>fetches := 1\<rparr>) ''K''
      counting_loader Map.empty) = Inr (JNum 1)
   \<and> truthy (JNum 1)
   \<and> returned (cacheWrapper parse_literal
        (after (cacheWrapper parse_literal ((fresh None)\<lparr>fetches := 1\<rparr>) ''K''
           counting_loader Map.empty))
        ''K'' counting_loader Map.empty) = Inr (JNum 1)
   \<and> x_cache (cacheWrapper parse_literal
        (after (cacheWrapper parse_literal ((fresh None)\<lparr>fetches := 1\<rparr>) ''K''
           counting_loader Map.empty))
        ''K'' counting_loader Map.empty) = Some ''HIT-MEMORY''
   \<and> fetches (after (cacheWrapper parse_literal
        (after (cacheWrapper parse_literal ((fresh None)\<lparr>fetches := 1\<rparr>) ''K''
           counting_loader Map.empty))
        ''K'' counting_loader Map.empty)) = 2
   \<and> returned (cacheWrapper parse_literal (fresh (Some (redis_holding Map.empty))) ''K''
        counting_loader Map.empty) = Inr (JNum 0)
   \<and> \<not> truthy (JNum 0)
   \<and> parse_literal (JSON_stringify (JNum 0)) = Inr (JNum 0)
   \<and> returned (cacheWrapper parse_literal
        (after (cacheWrapper parse_literal (fresh (Some (redis_holding Map.empty))) ''K''
           counting_loader Map.empty))
        ''K'' counting_loader Map.empty) = Inr (JNum 0)
   \<and> x_cache (cacheWrapper parse_literal
        (after (cacheWrapper parse_literal (fresh (Some (redis_holding Map.empty))) ''K''
           counting_loader Map.empty))
        ''K'' counting_loader Map.empty) = Some ''HIT-REDIS''
   \<and> fetches (after (cacheWrapper parse_literal
        (after (cacheWrapper parse_literal (fresh (Some (redis_holding Map.empty))) ''K''
           counting_loader Map.empty))
        ''K'' counting_loader Map.empty)) = 1"
proof -
  let ?f = "(fresh None)\<lparr>fetches := 1\<rparr>"
  let ?r = "redis_holding Map.empty"
  let ?g = "fresh (Some ?r)"
  have h1: "fetches (after (cacheWrapper parse_literal ?f ''K'' counting_loader Map.empty))
      = Suc (fetches ?f)"
    by (simp add: run)
  have h2: "returned (cacheWrapper parse_literal ?f ''K'' counting_loader Map.empty)
      = Inr (JNum 1)"
    by (simp add: run)
  have t1: "truthy (JNum 1)"
    by simp
  then have h3: "truthy (JNum 1)
      \<or> (\<exists>r. redis ?f = Some r \<and> set_error r = None
            \<and> parse_literal (JSON_stringify (JNum 1)) = Inr (JNum 1))"
    by (rule disjI1)
  have f1: "fetches ?f = 1"
    by simp
  have g1: "fetches (after (cacheWrapper parse_literal ?g ''K'' counting_loader Map.empty))
      = Suc (fetches ?g)"
    by (simp add: run)
  have g2: "returned (cacheWrapper parse_literal ?g ''K'' counting_loader Map.empty)
      = Inr (JNum 0)"
    by (simp add: run)
  have t0: "\<not> truthy (JNum 0)"
    by simp
  have p0: "parse_literal (JSON_stringify (JNum 0)) = Inr (JNum 0)"
    by (simp add: show_int_def show_nat.simps parse_literal_def)
  have "redis ?g = Some ?r \<and> set_error ?r = None
      \<and> parse_literal (JSON_stringify (JNum 0)) = Inr (JNum 0)"
    using p0 by (simp add: fresh_def redis_holding_def)
  then have g3: "truthy (JNum 0)
      \<or> (\<exists>r. redis ?g = Some r \<and> set_error r = None
            \<and> parse_literal (JSON_stringify (JNum 0)) = Inr (JNum 0))"
    by blast
  have g0: "fetches ?g = 0"
    by (simp add: fresh_def)
  from read_through_served [OF h1 h2 h3, of counting_loader Map.empty] h1 h2 t1 f1
  have A: "fetches (after (cacheWrapper parse_literal ?f ''K'' counting_loader Map.empty))
      = Suc (fetches ?f)
   \<and> returned (cacheWrapper parse_literal ?f ''K'' counting_loader Map.empty) = Inr (JNum 1)
   \<and> returned (cacheWrapper parse_literal
        (after (cacheWrapper parse_literal ?f ''K'' counting_loader Map.empty))
        ''K'' counting_loader Map.empty) = Inr (JNum 1)
   \<and> x_cache (cacheWrapper parse_literal
        (after (cacheWrapper parse_literal ?f ''K'' counting_loader Map.empty))
        ''K'' counting_loader Map.empty) = Some ''HIT-MEMORY''
   \<and> fetches (after (cacheWrapper parse_literal
        (after (cacheWrapper parse_literal ?f ''K'' counting_loader Map.empty))
        ''K'' counting_loader Map.empty)) = 2"
    by simp
  from read_through_served [OF g1 g2 g3, of counting_loader Map.empty] g2 t0 g0
  have B: "returned (cacheWrapper parse_literal ?g ''K'' counting_loader Map.empty) = Inr (JNum 0)
   \<and> returned (cacheWrapper parse_literal
        (after (cacheWrapper parse_literal ?g ''K'' counting_loader Map.empty))
        ''K'' counting_loader Map.empty) = Inr (JNum 0)
   \<and> x_cache (cacheWrapper parse_literal
        (after (cacheWrapper parse_literal ?g ''K'' counting_loader Map.empty))
        ''K'' counting_loader Map.empty) = Some ''HIT-REDIS''
   \<and> fetches (after (cacheWrapper parse_literal
        (after (cacheWrapper parse_literal ?g ''K'' counting_loader Map.empty))
        ''K'' counting_loader Map.empty)) = 1"
    by simp
  from A B t1 t0 p0 show ?thesis by blast
qed

section \<open>Loader failures: claim C5\<close>

text \<open>
  Counterexample to claim C5 as stated (both tiers are unchanged by the failed call):
  the lookup that precedes the loader changes the local tier. When the local tier
  holds an expired entry for the key, the failed call removes it; when it holds a
  falsy value for the key (here 0, stored before the entry of another key J), the
  failed call makes it the most recently used entry, so that J is now the one the next
  eviction removes.
\<close>

theorem loader_failure_tier_counterexample:
  "returned (cacheWrapper parse_literal
      ((fresh None)\<lparr>memoryCache := LocalTier_set 0 ''K'' (JStr ''old'') memoryCache0,
                     clock := 1800001\<rparr>)
      ''K'' (failing_loader (Error ''upstream'')) Map.empty) = Inl (Error ''upstream'')
   \<and> items (memoryCache
      ((fresh None)\<lparr>memoryCache := LocalTier_set 0 ''K'' (JStr ''old'') memoryCache0,
                     clock := 1800001\<rparr>)) = [(''K'', JStr ''old'', 0)]
   \<and> items (memoryCache (after (cacheWrapper parse_literal
      ((fresh None)\<lparr>memoryCache := LocalTier_set 0 ''K'' (JStr ''old'') memoryCache0,
                     clock := 1800001\<rparr>)
      ''K'' (failing_loader (Error ''upstream'')) Map.empty))) = []
   \<and> returned (cacheWrapper parse_literal
      ((fresh None)\<lparr>memoryCache :=
          LocalTier_set 0 ''J'' (JStr ''other'') (LocalTier_set 0 ''K'' (JNum 0) memoryCache0)\<rparr>)
      ''K'' (failing_loader (Error ''upstream'')) Map.empty) = Inl (Error ''upstream'')
   \<and> items (LocalTier_set 0 ''J'' (JStr ''other'') (LocalTier_set 0 ''K'' (JNum 0) memoryCache0))
       = [(''K'', JNum 0, 0), (''J'', JStr ''other'', 0)]
   \<and> items (memoryCache (after (cacheWrapper parse_literal
      ((fresh None)\<lparr>memoryCache :=
          LocalTier_set 0 ''J'' (JStr ''other'') (LocalTier_set 0 ''K'' (JNum 0) memoryCache0)\<rparr>)
      ''K'' (failing_loader (Error ''upstream'')) Map.empty)))
       = [(''J'', JStr ''other'', 0), (''K'', JNum 0, 0)]"
  by (simp add: run AList.delete_eq)

text \<open>
  Claim C5, amended: if the loader is invoked and fails, its error is what the call
  rejects with, unchanged; no cache entry is created: the shared tier is unchanged,
  and the local tier is changed by nothing but the lookup of the key that precedes
  the loader (which drops the key's expired entry, or refreshes the recency of its
  falsy one), so that it holds, at every later time \<open>t\<close> and for every key \<open>k'\<close>,
  what it held before, and is exactly as it was when it had no entry for the key;
  and a subsequent call with the same key, after any idle time and with any loader,
  invokes the loader again and returns what it answers.
\<close>

theorem loader_failure_not_cached:
  assumes "fetches (after (cacheWrapper parse f k ld rp)) = Suc (fetches f)"
    and "fst (ld (fetches f)) = Inl e"
    and "clock f \<le> t"
  shows "returned (cacheWrapper parse f k ld rp) = Inl e
    \<and> redis (after (cacheWrapper parse f k ld rp)) = redis f
    \<and> LocalTier_peek t (memoryCache (after (cacheWrapper parse f k ld rp))) k'
        = LocalTier_peek t (memoryCache f) k'
    \<and> memoryCache (after (cacheWrapper parse f k ld rp))
        = snd (LocalTier_get (clock f) k (memoryCache f))
    \<and> (map_of (items (memoryCache f)) k = None \<longrightarrow>
          memoryCache (after (cacheWrapper parse f k ld rp)) = memoryCache f)
    \<and> fetches (after (cacheWrapper parse
          ((after (cacheWrapper parse f k ld rp))
             \<lparr>clock := clock (after (cacheWrapper parse f k ld rp)) + idle\<rparr>) k ld' rp'))
        = Suc (Suc (fetches f))
    \<and> returned (cacheWrapper parse
          ((after (cacheWrapper parse f k ld rp))
             \<lparr>clock := clock (after (cacheWrapper parse f k ld rp)) + idle\<rparr>) k ld' rp')
        = fst (ld' (Suc (fetches f)))"
proof -
  from assms(1) obtain g where g: "cacheWrapper parse f k ld rp = cacheWrapper_fetch g k ld rp"
    "fetches g = fetches f" "redis g = redis f" "clock f \<le> clock g"
    "memoryCache g = snd (LocalTier_get (clock f) k (memoryCache f))"
    and falsy: "\<not> truthy_opt (LocalTier_peek (clock f) (memoryCache f) k)"
    and shared: "redis f = None \<or>
      (\<exists>r s. redis f = Some r \<and> redis_get (clock f) k r = Inr s \<and> \<not> truthy_str s)"
    by (rule reaches_loader)
  from assms(2) g(2) have e: "fst (ld (fetches g)) = Inl e" by simp
  note fr = after_fetch_rejected [where ld = ld and g = g and k = k and rp = rp, OF e]
  let ?a = "after (cacheWrapper parse f k ld rp)"
  let ?b = "?a\<lparr>clock := clock ?a + idle\<rparr>"
  have c1: "returned (cacheWrapper parse f k ld rp) = Inl e"
    and c2: "redis ?a = redis f"
    and mc: "memoryCache ?a = snd (LocalTier_get (clock f) k (memoryCache f))"
    and ck: "clock f \<le> clock ?a"
    and fa: "fetches ?a = Suc (fetches f)"
    using fr g assms(1) by simp_all
  have c3: "LocalTier_peek t (memoryCache ?a) k' = LocalTier_peek t (memoryCache f) k'"
    unfolding mc using assms(3) by (rule peek_get_later)
  have c3': "map_of (items (memoryCache f)) k = None \<longrightarrow> memoryCache ?a = memoryCache f"
    unfolding mc by (simp add: LocalTier_get_def)
  have later: "clock f \<le> clock ?b" using ck by simp
  have "LocalTier_peek (clock ?b) (memoryCache ?b) k = LocalTier_peek (clock ?b) (memoryCache f) k"
    using later by (simp add: mc peek_get_later)
  then have falsy': "\<not> truthy_opt (LocalTier_peek (clock ?b) (memoryCache ?b) k)"
    using falsy_later [OF falsy later] by simp
  have shared': "redis ?b = None \<or>
      (\<exists>r s. redis ?b = Some r \<and> redis_get (clock ?b) k r = Inr s \<and> \<not> truthy_str s)"
    using shared
  proof (elim disjE exE conjE)
    assume "redis f = None" then show ?thesis using c2 by simp
  next
    fix r s assume m: "redis f = Some r" "redis_get (clock f) k r = Inr s" "\<not> truthy_str s"
    from shared_miss_later [OF m(2,3) later] obtain s'
      where "redis_get (clock ?b) k r = Inr s'" "\<not> truthy_str s'" .
    with m(1) c2 show ?thesis by auto
  qed
  from loader_reached [OF falsy' shared', of parse ld' rp']
  obtain h where h: "cacheWrapper parse ?b k ld' rp' = cacheWrapper_fetch h k ld' rp'"
    "fetches h = fetches ?b"
    by blast
  have c4: "fetches (after (cacheWrapper parse ?b k ld' rp')) = Suc (Suc (fetches f))"
    using h fa by (simp add: after_fetch_count)
  have c5: "returned (cacheWrapper parse ?b k ld' rp') = fst (ld' (Suc (fetches f)))"
    using h fa by (simp add: fetch_returned)
  from c1 c2 c3 mc c3' c4 c5 show ?thesis by blast
qed

text \<open>
  Witness for claim C5: a loader that rejects with \<^verbatim>\<open>Error("upstream")\<close> on a
  fresh process with an empty Redis, followed 5 ms later by a call whose loader
  resolves.
\<close>

theorem loader_failure_not_cached_witness:
  "fetches (after (cacheWrapper parse_literal (fresh (Some (redis_holding Map.empty))) ''K''
      (failing_loader (Error ''upstream'')) Map.empty))
     = Suc (fetches (fresh (Some (redis_holding Map.empty))))
   \<and> fst (failing_loader (Error ''upstream'')
        (fetches (fresh (Some (redis_holding Map.empty))))) = Inl (Error ''upstream'')
   \<and> returned (cacheWrapper parse_literal (fresh (Some (redis_holding Map.empty))) ''K''
      (failing_loader (Error ''upstream'')) Map.empty) = Inl (Error ''upstream'')
   \<and> redis (after (cacheWrapper parse_literal (fresh (Some (redis_holding Map.empty))) ''K''
      (failing_loader (Error ''upstream'')) Map.empty)) = Some (redis_holding Map.empty)
   \<and> LocalTier_peek 7 (memoryCache (after (cacheWrapper parse_literal
        (fresh (Some (redis_holding Map.empty))) ''K''
        (failing_loader (Error ''upstream'')) Map.empty))) ''K'' = None
   \<and> memoryCache (after (cacheWrapper parse_literal
        (fresh (Some (redis_holding Map.empty))) ''K''
        (failing_loader (Error ''upstream'')) Map.empty)) = memoryCache0
   \<and> fetches (after (cacheWrapper parse_literal
        ((after (cacheWrapper parse_literal (fresh (Some (redis_holding Map.empty))) ''K''
            (failing_loader (Error ''upstream'')) Map.empty))
          \<lparr>clock := clock (after (cacheWrapper parse_literal
              (fresh (Some (redis_holding Map.empty))) ''K''
              (failing_loader (Error ''upstream'')) Map.empty)) + 5\<rparr>)
        ''K'' (constant_loader (JStr ''fresh'')) Map.empty)) = 2
   \<and> returned (cacheWrapper parse_literal
        ((after (cacheWrapper parse_literal (fresh (Some (redis_holding Map.empty))) ''K''
            (failing_loader (Error ''upstream'')) Map.empty))
          \<lparr>clock := clock (after (cacheWrapper parse_literal
              (fresh (Some (redis_holding Map.empty))) ''K''
              (failing_loader (Error ''upstream'')) Map.empty)) + 5\<rparr>)
        ''K'' (constant_loader (JStr ''fresh'')) Map.empty) = Inr (JStr ''fresh'')"
proof -
  let ?f = "fresh (Some (redis_holding Map.empty))"
  let ?ld = "failing_loader (Error ''upstream'')"
  have h1: "fetches (after (cacheWrapper parse_literal ?f ''K'' ?ld Map.empty)) = Suc (fetches ?f)"
    by (simp add: run)
  have h2: "fst (?ld (fetches ?f)) = Inl (Error ''upstream'')"
    by (simp add: failing_loader_def)
  have h3: "clock ?f \<le> 7"
    by (simp add: fresh_def)
  have f0: "fetches ?f = 0" "redis ?f = Some (redis_holding Map.empty)"
    "LocalTier_peek 7 (memoryCache ?f) ''K'' = None"
    "fst (constant_loader (JStr ''fresh'') (Suc 0)) = Inr (JStr ''fresh'')"
    "map_of (items (memoryCache ?f)) ''K'' = None" "memoryCache ?f = memoryCache0"
    "snd (LocalTier_get (clock ?f) ''K'' (memoryCache ?f)) = memoryCache0"
    by (simp_all add: fresh_def constant_loader_def LocalTier_peek_def LocalTier_get_def
        memoryCache0_def new_LRUCache_def)
  from loader_failure_not_cached [OF h1 h2 h3, of "''K''" 5 "constant_loader (JStr ''fresh'')"
      Map.empty] h1 h2 f0
  show ?thesis by simp
qed

section \<open>Tier promotion: claim C6\<close>

text \<open>
  Counterexample to claim C6 as stated (after a hit in the shared tier, the next call
  is labelled MEMORY): only the shared tier holds the key, with the text \<^verbatim>\<open>0\<close>.
  The first call returns 0 labelled \<^verbatim>\<open>HIT-REDIS\<close>; the immediately subsequent
  call finds the promoted 0 falsy, asks Redis again, and is labelled
  \<^verbatim>\<open>HIT-REDIS\<close> as well.
\<close>

theorem tier_promotion_counterexample:
  "LocalTier_peek 0 (memoryCache (fresh (Some (redis_holding [''K'' \<mapsto> (''0'', 1000)]))))
      ''K'' = None
   \<and> returned (cacheWrapper parse_literal
        (fresh (Some (redis_holding [''K'' \<mapsto> (''0'', 1000)]))) ''K''
        (constant_loader (JStr ''fresh'')) Map.empty) = Inr (JNum 0)
   \<and> x_cache (cacheWrapper parse_literal
        (fresh (Some (redis_holding [''K'' \<mapsto> (''0'', 1000)]))) ''K''
        (constant_loader (JStr ''fresh'')) Map.empty) = Some ''HIT-REDIS''
   \<and> x_cache (cacheWrapper parse_literal
        (after (cacheWrapper parse_literal
          (fresh (Some (redis_holding [''K'' \<mapsto> (''0'', 1000)]))) ''K''
          (constant_loader (JStr ''fresh'')) Map.empty))
        ''K'' (constant_loader (JStr ''fresh'')) Map.empty) = Some ''HIT-REDIS''"
  by (simp add: run)

text \<open>
  Claim C6, amended: if the local tier holds nothing for the key and the shared tier
  answers and holds for it an unexpired, non-empty text that parses to a truthy value,
  then the call returns that value labelled \<^verbatim>\<open>HIT-REDIS\<close> without invoking the
  loader, and an immediately subsequent call returns it labelled
  \<^verbatim>\<open>HIT-MEMORY\<close>, again without invoking the loader.
\<close>

theorem tier_promotion_truthy:
  assumes "LocalTier_peek (clock f) (memoryCache f) k = None"
    and "redis f = Some r" and "get_error r = None"
    and "store r k = Some (s, expiry)" and "clock f < expiry"
    and "s \<noteq> []" and "parse s = Inr v" and "truthy v"
  shows "returned (cacheWrapper parse f k ld rp) = Inr v
    \<and> x_cache (cacheWrapper parse f k ld rp) = Some ''HIT-REDIS''
    \<and> fetches (after (cacheWrapper parse f k ld rp)) = fetches f
    \<and> returned (cacheWrapper parse (after (cacheWrapper parse f k ld rp)) k ld' rp') = Inr v
    \<and> x_cache (cacheWrapper parse (after (cacheWrapper parse f k ld rp)) k ld' rp')
        = Some ''HIT-MEMORY''
    \<and> fetches (after (cacheWrapper parse (after (cacheWrapper parse f k ld rp)) k ld' rp'))
        = fetches f"
proof -
  note hit = after_shared_hit [where parse = parse and ld = ld and rp = rp,
      OF falsy_None [OF assms(1)] assms(2) redis_get_seeded [OF assms(3,4,5)] assms(6,7)]
  note second = second_call_memory [OF hit(5) assms(8), of parse ld' rp']
  from hit(1,2,3) second(1,2,3) show ?thesis by simp
qed

text \<open>
  Witness for claim C6: Redis holds the text \<^verbatim>\<open>true\<close> for the key.
\<close>

theorem tier_promotion_truthy_witness:
  "LocalTier_peek (clock (fresh (Some (redis_holding [''K'' \<mapsto> (''true'', 1000)]))))
      (memoryCache (fresh (Some (redis_holding [''K'' \<mapsto> (''true'', 1000)])))) ''K'' = None
   \<and> store (redis_holding [''K'' \<mapsto> (''true'', 1000)]) ''K'' = Some (''true'', 1000)
   \<and> parse_literal ''true'' = Inr (JBool True)
   \<and> returned (cacheWrapper parse_literal
        (fresh (Some (redis_holding [''K'' \<mapsto> (''true'', 1000)]))) ''K''
        (constant_loader (JStr ''fresh'')) Map.empty) = Inr (JBool True)
   \<and> x_cache (cacheWrapper parse_literal
        (fresh (Some (redis_holding [''K'' \<mapsto> (''true'', 1000)]))) ''K''
        (constant_loader (JStr ''fresh'')) Map.empty) = Some ''HIT-REDIS''
   \<and> returned (cacheWrapper parse_literal
        (after (cacheWrapper parse_literal
          (fresh (Some (redis_holding [''K'' \<mapsto> (''true'', 1000)]))) ''K''
          (constant_loader (JStr ''fresh'')) Map.empty))
        ''K'' (constant_loader (JStr ''fresh'')) Map.empty) = Inr (JBool True)
   \<and> x_cache (cacheWrapper parse_literal
        (after (cacheWrapper parse_literal
          (fresh (Some (redis_holding [''K'' \<mapsto> (''true'', 1000)]))) ''K''
          (constant_loader (JStr ''fresh'')) Map.empty))
        ''K'' (constant_loader (JStr ''fresh'')) Map.empty) = Some ''HIT-MEMORY''
   \<and> fetches (after (cacheWrapper parse_literal
        (after (cacheWrapper parse_literal
          (fresh (Some (redis_holding [''K'' \<mapsto> (''true'', 1000)]))) ''K''
          (constant_loader (JStr ''fresh'')) Map.empty))
        ''K'' (constant_loader (JStr ''fresh'')) Map.empty)) = 0"
proof -
  let ?r = "redis_holding [''K'' \<mapsto> (''true'', 1000)]"
  let ?f = "fresh (Some ?r)"
  let ?ld = "constant_loader (JStr ''fresh'')"
  have h1: "LocalTier_peek (clock ?f) (memoryCache ?f) ''K'' = None"
    by (simp add: run)
  have h2: "redis ?f = Some ?r"
    by (simp add: fresh_def)
  have h3: "get_error ?r = None"
    by (simp add: redis_holding_def)
  have h4: "store ?r ''K'' = Some (''true'', 1000)"
    by (simp add: redis_holding_def)
  have h5: "clock ?f < 1000"
    by (simp add: fresh_def)
  have h6: "''true'' \<noteq> []"
    by simp
  have h7: "parse_literal ''true'' = Inr (JBool True)"
    by (simp add: parse_literal_def)
  have h8: "truthy (JBool True)"
    by simp
  have f0: "fetches ?f = 0"
    by (simp add: fresh_def)
  from tier_promotion_truthy [where parse = parse_literal and ld = ?ld and rp = Map.empty
      and ld' = ?ld and rp' = Map.empty, OF h1 h2 h3 h4 h5 h6 h7 h8] h1 h4 h7 f0
  show ?thesis by simp
qed

section \<open>The write to the shared tier: claim C7\<close>

text \<open>
  Claim C7: the write to the shared tier is performed and is fire-and-forget.
  Whenever a call invokes the loader and the loader succeeds with \<open>v\<close>, the call
  returns \<open>v\<close>, labelled \<^verbatim>\<open>MISS\<close>, and the local tier holds \<open>v\<close>, whatever
  the Redis client does with the write; the client has been sent
  \<^verbatim>\<open>SET key JSON.stringify(v) EX CACHE_TTL\<close>: when it accepts, the shared tier
  holds that text for the key with that expiry, and when it rejects, the shared tier
  is left as it was and the request does not fail.
\<close>

theorem shared_write_fire_and_forget:
  assumes "fetches (after (cacheWrapper parse f k ld rp)) = Suc (fetches f)"
    and "fst (ld (fetches f)) = Inr v"
  shows "returned (cacheWrapper parse f k ld rp) = Inr v
    \<and> x_cache (cacheWrapper parse f k ld rp) = Some ''MISS''
    \<and> LocalTier_peek (clock (after (cacheWrapper parse f k ld rp)))
         (memoryCache (after (cacheWrapper parse f k ld rp))) k = Some v
    \<and> redis (after (cacheWrapper parse f k ld rp)) =
         map_option (redis_set (clock (after (cacheWrapper parse f k ld rp))) k
           (JSON_stringify v) CACHE_TTL) (redis f)
    \<and> (\<forall>r. redis f = Some r \<and> set_error r = None \<longrightarrow>
          redis (after (cacheWrapper parse f k ld rp)) =
            Some (r\<lparr>store := (store r)(k \<mapsto> (JSON_stringify v,
                    clock (after (cacheWrapper parse f k ld rp)) + CACHE_TTL * 1000))\<rparr>))
    \<and> (\<forall>r e. redis f = Some r \<and> set_error r = Some e \<longrightarrow>
          redis (after (cacheWrapper parse f k ld rp)) = Some r)"
proof -
  from assms(1) obtain g where g: "cacheWrapper parse f k ld rp = cacheWrapper_fetch g k ld rp"
    "fetches g = fetches f" "redis g = redis f"
    by (rule reaches_loader)
  from assms(2) g(2) have v': "fst (ld (fetches g)) = Inr v" by simp
  note ok = after_fetch_resolved [where ld = ld and g = g and k = k and rp = rp, OF v']
  have sent: "redis (after (cacheWrapper parse f k ld rp)) =
         map_option (redis_set (clock (after (cacheWrapper parse f k ld rp))) k
           (JSON_stringify v) CACHE_TTL) (redis f)"
    unfolding g(1) using ok(3) g(3) by simp
  have stored: "\<forall>r. redis f = Some r \<and> set_error r = None \<longrightarrow>
          redis (after (cacheWrapper parse f k ld rp)) =
            Some (r\<lparr>store := (store r)(k \<mapsto> (JSON_stringify v,
                    clock (after (cacheWrapper parse f k ld rp)) + CACHE_TTL * 1000))\<rparr>)"
    using sent by (simp add: redis_set_def)
  have swallowed: "\<forall>r e. redis f = Some r \<and> set_error r = Some e \<longrightarrow>
          redis (after (cacheWrapper parse f k ld rp)) = Some r"
    using sent by (simp add: redis_set_def)
  from ok(1,2,4) sent stored swallowed show ?thesis unfolding g(1) by simp
qed

text \<open>
  Witness for claim C7: a Redis client that answers \<^verbatim>\<open>GET\<close> and rejects
  \<^verbatim>\<open>SET\<close>, and one that accepts both.
\<close>

theorem shared_write_fire_and_forget_witness:
  "set_error ((redis_holding Map.empty)\<lparr>set_error := Some (Error ''ECONNRESET'')\<rparr>)
     = Some (Error ''ECONNRESET'')
   \<and> fetches (after (cacheWrapper parse_literal
        (fresh (Some ((redis_holding Map.empty)\<lparr>set_error := Some (Error ''ECONNRESET'')\<rparr>)))
        ''K'' (constant_loader (JStr ''fresh'')) Map.empty)) = 1
   \<and> returned (cacheWrapper parse_literal
        (fresh (Some ((redis_holding Map.empty)\<lparr>set_error := Some (Error ''ECONNRESET'')\<rparr>)))
        ''K'' (constant_loader (JStr ''fresh'')) Map.empty) = Inr (JStr ''fresh'')
   \<and> x_cache (cacheWrapper parse_literal
        (fresh (Some ((redis_holding Map.empty)\<lparr>set_error := Some (Error ''ECONNRESET'')\<rparr>)))
        ''K'' (constant_loader (JStr ''fresh'')) Map.empty) = Some ''MISS''
   \<and> redis (after (cacheWrapper parse_literal
        (fresh (Some ((redis_holding Map.empty)\<lparr>set_error := Some (Error ''ECONNRESET'')\<rparr>)))
        ''K'' (constant_loader (JStr ''fresh'')) Map.empty))
       = Some ((redis_holding Map.empty)\<lparr>set_error := Some (Error ''ECONNRESET'')\<rparr>)
   \<and> set_error (redis_holding Map.empty) = None
   \<and> returned (cacheWrapper parse_literal (fresh (Some (redis_holding Map.empty)))
        ''K'' (constant_loader (JStr ''fresh'')) Map.empty) = Inr (JStr ''fresh'')
   \<and> redis (after (cacheWrapper parse_literal (fresh (Some (redis_holding Map.empty)))
        ''K'' (constant_loader (JStr ''fresh'')) Map.empty))
       = Some (redis_holding [''K'' \<mapsto> (JSON_stringify (JStr ''fresh''), 1800002)])"
proof -
  let ?r = "(redis_holding Map.empty)\<lparr>set_error := Some (Error ''ECONNRESET'')\<rparr>"
  let ?f = "fresh (Some ?r)"
  let ?q = "redis_holding Map.empty"
  let ?g = "fresh (Some ?q)"
  let ?ld = "constant_loader (JStr ''fresh'')"
  have h1: "fetches (after (cacheWrapper parse_literal ?f ''K'' ?ld Map.empty)) = Suc (fetches ?f)"
    by (simp add: run)
  have h2: "fst (?ld (fetches ?f)) = Inr (JStr ''fresh'')"
    by (simp add: constant_loader_def)
  have f0: "fetches ?f = 0" "redis ?f = Some ?r" "set_error ?r = Some (Error ''ECONNRESET'')"
    by (simp_all add: fresh_def)
  have g1: "fetches (after (cacheWrapper parse_literal ?g ''K'' ?ld Map.empty)) = Suc (fetches ?g)"
    by (simp add: run)
  have g2: "fst (?ld (fetches ?g)) = Inr (JStr ''fresh'')"
    by (simp add: constant_loader_def)
  have g0: "redis ?g = Some ?q" "set_error ?q = None"
    by (simp_all add: fresh_def redis_holding_def)
  have ck: "clock (after (cacheWrapper parse_literal ?g ''K'' ?ld Map.empty)) = 2"
    by (simp add: run)
  from shared_write_fire_and_forget [OF h1 h2] h1 f0
  have A: "fetches (after (cacheWrapper parse_literal ?f ''K'' ?ld Map.empty)) = 1
    \<and> returned (cacheWrapper parse_literal ?f ''K'' ?ld Map.empty) = Inr (JStr ''fresh'')
    \<and> x_cache (cacheWrapper parse_literal ?f ''K'' ?ld Map.empty) = Some ''MISS''
    \<and> redis (after (cacheWrapper parse_literal ?f ''K'' ?ld Map.empty)) = Some ?r"
    by (simp add: redis_set_def)
  from shared_write_fire_and_forget [OF g1 g2] g0 ck
  have B: "returned (cacheWrapper parse_literal ?g ''K'' ?ld Map.empty) = Inr (JStr ''fresh'')
    \<and> redis (after (cacheWrapper parse_literal ?g ''K'' ?ld Map.empty))
       = Some (redis_holding [''K'' \<mapsto> (JSON_stringify (JStr ''fresh''), 1800002)])"
    by (simp add: redis_holding_def redis_set_def CACHE_TTL_def)
  from A B f0(3) g0(2) show ?thesis by blast
qed

section \<open>No shared tier: claim C8\<close>

text \<open>
  Counterexample to claim C8 as stated (without a shared tier, a local hit is
  labelled MEMORY): the local tier holds \<^verbatim>\<open>false\<close> for the key, and there is no
  shared tier; the call invokes the loader and is labelled \<^verbatim>\<open>MISS\<close>.
\<close>

theorem unconfigured_counterexample:
  "redis ((fresh None)\<lparr>memoryCache := LocalTier_set 0 ''K'' (JBool False) memoryCache0\<rparr>) = None
   \<and> LocalTier_peek 0 (LocalTier_set 0 ''K'' (JBool False) memoryCache0) ''K''
       = Some (JBool False)
   \<and> x_cache (cacheWrapper parse_literal
        ((fresh None)\<lparr>memoryCache := LocalTier_set 0 ''K'' (JBool False) memoryCache0\<rparr>) ''K''
        (constant_loader (JStr ''fresh'')) Map.empty) = Some ''MISS''
   \<and> returned (cacheWrapper parse_literal
        ((fresh None)\<lparr>memoryCache := LocalTier_set 0 ''K'' (JBool False) memoryCache0\<rparr>) ''K''
        (constant_loader (JStr ''fresh'')) Map.empty) = Inr (JStr ''fresh'')"
  by (simp add: run)

text \<open>
  Claim C8, amended: when \<^verbatim>\<open>fastify.redis\<close> is \<^verbatim>\<open>null\<close>, the call is the
  local-tier lookup followed by the loader: it returns the local value labelled
  \<^verbatim>\<open>HIT-MEMORY\<close> when the local tier holds a truthy value for the key, and
  otherwise invokes the loader, is labelled \<^verbatim>\<open>MISS\<close> and settles with what the
  loader answers. No shared-tier operation takes place: the handle stays
  \<^verbatim>\<open>null\<close> and the only error the call can reject with is the loader's.
\<close>

theorem unconfigured_shared_tier:
  assumes "redis f = None"
  shows "returned (cacheWrapper parse f k ld rp) =
      (if truthy_opt (LocalTier_peek (clock f) (memoryCache f) k)
       then Inr (the (LocalTier_peek (clock f) (memoryCache f) k))
       else fst (ld (fetches f)))
    \<and> x_cache (cacheWrapper parse f k ld rp) =
      Some (if truthy_opt (LocalTier_peek (clock f) (memoryCache f) k)
            then ''HIT-MEMORY'' else ''MISS'')
    \<and> fetches (after (cacheWrapper parse f k ld rp)) =
      (if truthy_opt (LocalTier_peek (clock f) (memoryCache f) k)
       then fetches f else Suc (fetches f))
    \<and> redis (after (cacheWrapper parse f k ld rp)) = None"
proof (cases "truthy_opt (LocalTier_peek (clock f) (memoryCache f) k)")
  case True
  from cw_memory [OF this, of parse ld rp] True assms show ?thesis
    by (simp add: returned_def x_cache_def after_def)
next
  case False
  have r: "redis (after (cacheWrapper_fetch g k ld rp)) = None" if "redis g = None" for g
    using that by (cases "ld (fetches g)"; cases "fst (ld (fetches g))")
      (simp_all add: fetch_resolved fetch_rejected after_def)
  from cw_unconfigured [OF False assms, of parse ld rp] False assms show ?thesis
    by (simp add: fetch_returned after_fetch_count r)
qed

text \<open>
  Witness for claim C8: a fresh process without a shared tier.
\<close>

theorem unconfigured_shared_tier_witness:
  "redis (fresh None) = None
   \<and> returned (cacheWrapper parse_literal (fresh None) ''K''
        (constant_loader (JStr ''fresh'')) Map.empty) = Inr (JStr ''fresh'')
   \<and> x_cache (cacheWrapper parse_literal (fresh None) ''K''
        (constant_loader (JStr ''fresh'')) Map.empty) = Some ''MISS''
   \<and> fetches (after (cacheWrapper parse_literal (fresh None) ''K''
        (constant_loader (JStr ''fresh'')) Map.empty)) = 1
   \<and> redis (after (cacheWrapper parse_literal (fresh None) ''K''
        (constant_loader (JStr ''fresh'')) Map.empty)) = None"
proof -
  have h: "redis (fresh None) = None"
    by (simp add: fresh_def)
  have m: "\<not> truthy_opt (LocalTier_peek (clock (fresh None)) (memoryCache (fresh None)) ''K'')"
    "fst (constant_loader (JStr ''fresh'') (fetches (fresh None))) = Inr (JStr ''fresh'')"
    "fetches (fresh None) = 0"
    by (simp_all add: run)
  from unconfigured_shared_tier [OF h, of parse_literal "''K''"
      "constant_loader (JStr ''fresh'')" Map.empty] h m
  show ?thesis by simp
qed

section \<open>Falsy cached values: claim C10\<close>

text \<open>
  Counterexample to claim C10 as stated (a key cached with a falsy value is a miss
  of both checks, and the loader is invoked again): a first call whose loader resolves
  with \<^verbatim>\<open>null\<close> stores \<^verbatim>\<open>null\<close> in the local tier and the text
  \<^verbatim>\<open>null\<close> in Redis. The next call fails the local check, but
  \<^verbatim>\<open>if (cachedData)\<close> tests the stored text, which is not empty: the call is
  labelled \<^verbatim>\<open>HIT-REDIS\<close>, returns \<^verbatim>\<open>null\<close>, and the loader is not
  invoked again.
\<close>

theorem falsy_shared_counterexample:
  "LocalTier_peek 2
      (memoryCache (after (cacheWrapper parse_literal (fresh (Some (redis_holding Map.empty)))
         ''K'' (constant_loader JNull) Map.empty))) ''K'' = Some JNull
   \<and> clock (after (cacheWrapper parse_literal (fresh (Some (redis_holding Map.empty)))
         ''K'' (constant_loader JNull) Map.empty)) = 2
   \<and> fetches (after (cacheWrapper parse_literal (fresh (Some (redis_holding Map.empty)))
         ''K'' (constant_loader JNull) Map.empty)) = 1
   \<and> x_cache (cacheWrapper parse_literal
        (after (cacheWrapper parse_literal (fresh (Some (redis_holding Map.empty)))
           ''K'' (constant_loader JNull) Map.empty))
        ''K'' (constant_loader (JStr ''fresh'')) Map.empty) = Some ''HIT-REDIS''
   \<and> returned (cacheWrapper parse_literal
        (after (cacheWrapper parse_literal (fresh (Some (redis_holding Map.empty)))
           ''K'' (constant_loader JNull) Map.empty))
        ''K'' (constant_loader (JStr ''fresh'')) Map.empty) = Inr JNull
   \<and> fetches (after (cacheWrapper parse_literal
        (after (cacheWrapper parse_literal (fresh (Some (redis_holding Map.empty)))
           ''K'' (constant_loader JNull) Map.empty))
        ''K'' (constant_loader (JStr ''fresh'')) Map.empty)) = 1"
  by (simp add: run)

text \<open>
  Claim C10, amended: the local-tier check treats a present, unexpired entry whose
  value is falsy as a miss. The shared-tier check tests the stored text, and treats
  an entry as a miss only when that text is empty. So, when the local entry is falsy:
  if the shared tier is unconfigured, or returns nothing or the empty text, the
  loader is invoked again and the reply is labelled \<^verbatim>\<open>MISS\<close>; if the shared
  tier returns a non-empty text that parses (as the serialized \<^verbatim>\<open>null\<close>,
  \<^verbatim>\<open>false\<close>, \<^verbatim>\<open>0\<close> and \<^verbatim>\<open>""\<close> are), the reply is labelled
  \<^verbatim>\<open>HIT-REDIS\<close> and the loader is not invoked.
\<close>

theorem falsy_local_entry:
  assumes "LocalTier_peek (clock f) (memoryCache f) k = Some v" and "\<not> truthy v"
  shows "(redis f = None
          \<or> (\<exists>r s. redis f = Some r \<and> redis_get (clock f) k r = Inr s \<and> \<not> truthy_str s) \<longrightarrow>
            x_cache (cacheWrapper parse f k ld rp) = Some ''MISS''
            \<and> fetches (after (cacheWrapper parse f k ld rp)) = Suc (fetches f)
            \<and> returned (cacheWrapper parse f k ld rp) = fst (ld (fetches f)))
    \<and> (redis f = Some r \<and> redis_get (clock f) k r = Inr (Some s) \<and> s \<noteq> []
         \<and> parse s = Inr w \<longrightarrow>
            x_cache (cacheWrapper parse f k ld rp) = Some ''HIT-REDIS''
            \<and> returned (cacheWrapper parse f k ld rp) = Inr w
            \<and> fetches (after (cacheWrapper parse f k ld rp)) = fetches f)"
proof (intro conjI impI)
  note falsy = falsy_Some [OF assms]
  {
    assume shared: "redis f = None
          \<or> (\<exists>r s. redis f = Some r \<and> redis_get (clock f) k r = Inr s \<and> \<not> truthy_str s)"
    from loader_reached [OF falsy shared, of parse ld rp]
    obtain g where g: "cacheWrapper parse f k ld rp = cacheWrapper_fetch g k ld rp"
      "fetches g = fetches f"
      by blast
    show "x_cache (cacheWrapper parse f k ld rp) = Some ''MISS''"
      unfolding g(1) by (rule fetch_returned)
    show "fetches (after (cacheWrapper parse f k ld rp)) = Suc (fetches f)"
      unfolding g(1) using g(2) by (simp add: after_fetch_count)
    show "returned (cacheWrapper parse f k ld rp) = fst (ld (fetches f))"
      unfolding g(1) using g(2) by (simp add: fetch_returned)
  }
  {
    assume a: "redis f = Some r \<and> redis_get (clock f) k r = Inr (Some s) \<and> s \<noteq> []
         \<and> parse s = Inr w"
    then have h: "redis f = Some r" "redis_get (clock f) k r = Inr (Some s)" "s \<noteq> []"
      "parse s = Inr w"
      by simp_all
    note hit = after_shared_hit [where parse = parse and ld = ld and rp = rp, OF falsy h]
    show "x_cache (cacheWrapper parse f k ld rp) = Some ''HIT-REDIS''" by (rule hit)
    show "returned (cacheWrapper parse f k ld rp) = Inr w" by (rule hit)
    show "fetches (after (cacheWrapper parse f k ld rp)) = fetches f" by (rule hit)
  }
qed

text \<open>
  Witness for claim C10: the local tier holds \<^verbatim>\<open>null\<close>; once without a shared
  tier, once with a Redis that holds the text \<^verbatim>\<open>null\<close>.
\<close>

theorem falsy_local_entry_witness:
  "LocalTier_peek 0 (LocalTier_set 0 ''K'' JNull memoryCache0) ''K'' = Some JNull
   \<and> \<not> truthy JNull
   \<and> x_cache (cacheWrapper parse_literal
        ((fresh None)\<lparr>memoryCache := LocalTier_set 0 ''K'' JNull memoryCache0\<rparr>) ''K''
        (constant_loader (JStr ''fresh'')) Map.empty) = Some ''MISS''
   \<and> fetches (after (cacheWrapper parse_literal
        ((fresh None)\<lparr>memoryCache := LocalTier_set 0 ''K'' JNull memoryCache0\<rparr>) ''K''
        (constant_loader (JStr ''fresh'')) Map.empty)) = 1
   \<and> x_cache (cacheWrapper parse_literal
        ((fresh (Some (redis_holding [''K'' \<mapsto> (''null'', 1000)])))
           \<lparr>memoryCache := LocalTier_set 0 ''K'' JNull memoryCache0\<rparr>) ''K''
        (constant_loader (JStr ''fresh'')) Map.empty) = Some ''HIT-REDIS''
   \<and> returned (cacheWrapper parse_literal
        ((fresh (Some (redis_holding [''K'' \<mapsto> (''null'', 1000)])))
           \<lparr>memoryCache := LocalTier_set 0 ''K'' JNull memoryCache0\<rparr>) ''K''
        (constant_loader (JStr ''fresh'')) Map.empty) = Inr JNull
   \<and> fetches (after (cacheWrapper parse_literal
        ((fresh (Some (redis_holding [''K'' \<mapsto> (''null'', 1000)])))
           \<lparr>memoryCache := LocalTier_set 0 ''K'' JNull memoryCache0\<rparr>) ''K''
        (constant_loader (JStr ''fresh'')) Map.empty)) = 0"
proof -
  let ?ld = "constant_loader (JStr ''fresh'')"
  let ?a = "(fresh None)\<lparr>memoryCache := LocalTier_set 0 ''K'' JNull memoryCache0\<rparr>"
  let ?r = "redis_holding [''K'' \<mapsto> (''null'', 1000)]"
  let ?b = "(fresh (Some ?r))\<lparr>memoryCache := LocalTier_set 0 ''K'' JNull memoryCache0\<rparr>"
  have p: "LocalTier_peek 0 (LocalTier_set 0 ''K'' JNull memoryCache0) ''K'' = Some JNull"
    by (simp add: peek_set_same)
  have a1: "LocalTier_peek (clock ?a) (memoryCache ?a) ''K'' = Some JNull"
    using p by (simp add: fresh_def)
  have b1: "LocalTier_peek (clock ?b) (memoryCache ?b) ''K'' = Some JNull"
    using p by (simp add: fresh_def)
  have n: "\<not> truthy JNull"
    by simp
  have a2: "redis ?a = None
      \<or> (\<exists>r s. redis ?a = Some r \<and> redis_get (clock ?a) ''K'' r = Inr s \<and> \<not> truthy_str s)"
    by (simp add: fresh_def)
  have b2: "redis ?b = Some ?r \<and> redis_get (clock ?b) ''K'' ?r = Inr (Some ''null'')
      \<and> ''null'' \<noteq> [] \<and> parse_literal ''null'' = Inr JNull"
    by (simp add: run)
  have f0: "fetches ?a = 0" "fetches ?b = 0"
    by (simp_all add: fresh_def)
  from falsy_local_entry [OF a1 n, where parse = parse_literal and ld = ?ld and rp = Map.empty,
      THEN conjunct1, THEN mp, OF a2] f0
  have A: "x_cache (cacheWrapper parse_literal ?a ''K'' ?ld Map.empty) = Some ''MISS''
    \<and> fetches (after (cacheWrapper parse_literal ?a ''K'' ?ld Map.empty)) = 1"
    by simp
  from falsy_local_entry [OF b1 n, where parse = parse_literal and ld = ?ld and rp = Map.empty
      and r = ?r and s = "''null''" and w = JNull, THEN conjunct2, THEN mp, OF b2] f0
  have B: "x_cache (cacheWrapper parse_literal ?b ''K'' ?ld Map.empty) = Some ''HIT-REDIS''
    \<and> returned (cacheWrapper parse_literal ?b ''K'' ?ld Map.empty) = Inr JNull
    \<and> fetches (after (cacheWrapper parse_literal ?b ''K'' ?ld Map.empty)) = 0"
    by simp
  from p n A B show ?thesis by simp
qed

end
